theory Spec2Isabelle
  imports Main
begin

section \<open>Byte strings, hexadecimal text and the random source\<close>

text \<open>
  The bytes of a Node \<open>Buffer\<close> are a \<open>string\<close>, one character per byte. The
  texts that the code only compares, concatenates and passes on (identifiers,
  names, hexadecimal and JSON text) are \<open>string\<close>s too, one character per
  code unit. Plaintexts and message contents, which the code transcodes between
  UTF-16 and UTF-8, are lists of UTF-16 code units (see below).
\<close>

definition hex_digit :: "nat \<Rightarrow> char" where
  "hex_digit n = ''0123456789abcdef'' ! (n mod 16)"

definition hex_val :: "char \<Rightarrow> nat option" where
  "hex_val c = (let n = (of_char c :: nat) in
     if 48 \<le> n \<and> n \<le> 57 then Some (n - 48)
     else if 97 \<le> n \<and> n \<le> 102 then Some (n - 87)
     else if 65 \<le> n \<and> n \<le> 70 then Some (n - 55)
     else None)"

text \<open>\<open>buf.toString('hex')\<close>: two lower-case digits per byte.\<close>

fun hex_encode :: "string \<Rightarrow> string" where
  "hex_encode [] = []"
| "hex_encode (c # cs) =
     hex_digit (of_char c div 16) # hex_digit (of_char c mod 16) # hex_encode cs"

text \<open>
  \<open>Buffer.from(s, 'hex')\<close>: decodes pairs of digits and stops, without raising,
  at the first pair that is not two hexadecimal digits; a trailing single
  character is dropped.
\<close>

fun hex_decode :: "string \<Rightarrow> string" where
  "hex_decode (a # b # r) =
     (case (hex_val a, hex_val b) of
        (Some x, Some y) \<Rightarrow> char_of (16 * x + y) # hex_decode r
      | _ \<Rightarrow> [])"
| "hex_decode _ = []"


text \<open>
  \<open>crypto.randomBytes(n)\<close> reads the next \<open>n\<close> bytes of the system's random
  source; the source is an explicit stream that every draw advances.
\<close>

type_synonym rng = "nat \<Rightarrow> char"

definition randomBytes :: "nat \<Rightarrow> rng \<Rightarrow> string \<times> rng" where
  "randomBytes n g = (map g [0..<n], \<lambda>i. g (i + n))"

section \<open>JavaScript strings and UTF-8\<close>

text \<open>
  A JavaScript string is a sequence of UTF-16 code units, numbers below
  \<open>0x10000\<close>. \<open>js_text\<close> is the string whose code units are the characters
  of a text.
\<close>

type_synonym utf16 = "nat list"

definition js_text :: "string \<Rightarrow> utf16" where
  "js_text s = map of_char s"

text \<open>
  Encoding a string as UTF-8 (\<open>update(plaintext, 'utf8', _)\<close>): one to three
  bytes for a code unit, four for a surrogate pair, and the three bytes of
  U+FFFD for a surrogate without its partner.
\<close>

definition replacement :: string where
  "replacement = [CHR 0xEF, CHR 0xBF, CHR 0xBD]"

fun utf8_encode :: "utf16 \<Rightarrow> string" where
  "utf8_encode [] = []"
| "utf8_encode (u # us) =
     (if u < 0x80 then char_of u # utf8_encode us
      else if u < 0x800
        then char_of (0xC0 + u div 64) # char_of (0x80 + u mod 64) # utf8_encode us
      else if 0xD800 \<le> u \<and> u < 0xDC00
        then (case us of
                [] \<Rightarrow> replacement
              | v # vs \<Rightarrow>
                  if 0xDC00 \<le> v \<and> v < 0xE000
                  then (let cp = 0x10000 + (u - 0xD800) * 1024 + (v - 0xDC00)
                        in char_of (0xF0 + cp div 64 div 64 div 64)
                           # char_of (0x80 + cp div 64 div 64 mod 64)
                           # char_of (0x80 + cp div 64 mod 64)
                           # char_of (0x80 + cp mod 64) # utf8_encode vs)
                  else replacement @ utf8_encode us)
      else if 0xDC00 \<le> u \<and> u < 0xE000 then replacement @ utf8_encode us
      else char_of (0xE0 + u div 64 div 64) # char_of (0x80 + u div 64 mod 64)
           # char_of (0x80 + u mod 64) # utf8_encode us)"

text \<open>
  Decoding UTF-8 into a string (\<open>update(_, _, 'utf8')\<close> and \<open>final('utf8')\<close>):
  every well-formed sequence gives its code unit, or its surrogate pair, and
  every maximal ill-formed part gives one U+FFFD.
\<close>

definition between :: "nat \<Rightarrow> nat \<Rightarrow> char \<Rightarrow> bool" where
  "between lo hi c = (lo \<le> of_char c \<and> (of_char c :: nat) \<le> hi)"

definition low6 :: "char \<Rightarrow> nat" where
  "low6 c = of_char c mod 64"

fun utf8_decode :: "string \<Rightarrow> utf16" where
  "utf8_decode [] = []"
| "utf8_decode (b # bs) =
     (let n = (of_char b :: nat) in
      if n < 0x80 then n # utf8_decode bs
      else if 0xC2 \<le> n \<and> n \<le> 0xDF
        then (case bs of
                [] \<Rightarrow> [0xFFFD]
              | c1 # r1 \<Rightarrow>
                  if between 0x80 0xBF c1
                  then ((n - 0xC0) * 64 + low6 c1) # utf8_decode r1
                  else 0xFFFD # utf8_decode bs)
      else if 0xE0 \<le> n \<and> n \<le> 0xEF
        then (case bs of
                [] \<Rightarrow> [0xFFFD]
              | c1 # r1 \<Rightarrow>
                  if between (if n = 0xE0 then 0xA0 else 0x80) (if n = 0xED then 0x9F else 0xBF) c1
                  then (case r1 of
                          [] \<Rightarrow> [0xFFFD]
                        | c2 # r2 \<Rightarrow>
                            if between 0x80 0xBF c2
                            then (((n - 0xE0) * 64 + low6 c1) * 64 + low6 c2) # utf8_decode r2
                            else 0xFFFD # utf8_decode r1)
                  else 0xFFFD # utf8_decode bs)
      else if 0xF0 \<le> n \<and> n \<le> 0xF4
        then (case bs of
                [] \<Rightarrow> [0xFFFD]
              | c1 # r1 \<Rightarrow>
                  if between (if n = 0xF0 then 0x90 else 0x80) (if n = 0xF4 then 0x8F else 0xBF) c1
                  then (case r1 of
                          [] \<Rightarrow> [0xFFFD]
                        | c2 # r2 \<Rightarrow>
                            if between 0x80 0xBF c2
                            then (case r2 of
                                    [] \<Rightarrow> [0xFFFD]
                                  | c3 # r3 \<Rightarrow>
                                      if between 0x80 0xBF c3
                                      then (let cp = (((n - 0xF0) * 64 + low6 c1) * 64 + low6 c2) * 64
                                                     + low6 c3
                                            in (0xD800 + (cp - 0x10000) div 1024)
                                               # (0xDC00 + (cp - 0x10000) mod 1024)
                                               # utf8_decode r3)
                                      else 0xFFFD # utf8_decode r2)
                            else 0xFFFD # utf8_decode r1)
                  else 0xFFFD # utf8_decode bs)
      else 0xFFFD # utf8_decode bs)"

text \<open>A string in which every surrogate is paired.\<close>

fun well_formed :: "utf16 \<Rightarrow> bool" where
  "well_formed [] = True"
| "well_formed (u # us) =
     (if 0xD800 \<le> u \<and> u < 0xDC00
      then (case us of [] \<Rightarrow> False | v # vs \<Rightarrow> 0xDC00 \<le> v \<and> v < 0xE000 \<and> well_formed vs)
      else if 0xDC00 \<le> u \<and> u < 0xE000 then False
      else u < 0x10000 \<and> well_formed us)"

section \<open>EncryptionService (backend/src/utils/encryption.ts)\<close>

definition KEY_LENGTH :: nat where "KEY_LENGTH = 32"
definition IV_LENGTH :: nat where "IV_LENGTH = 16"
definition TAG_LENGTH :: nat where "TAG_LENGTH = 16"

definition AAD :: string where "AAD = ''defence-mission-track''"

text \<open>
  The authenticated cipher of Node's \<open>crypto\<close> module is a parameter.
  \<open>seal pw aad p\<close> is \<open>createCipher(ALGORITHM, pw)\<close>, \<open>setAAD\<close>, \<open>update\<close>,
  \<open>final\<close> and \<open>getAuthTag\<close>: the ciphertext and the tag.
  \<open>unseal pw aad t c\<close> is \<open>createDecipher(ALGORITHM, pw)\<close>, \<open>setAAD\<close>,
  \<open>setAuthTag(t)\<close>, \<open>update\<close> and \<open>final\<close>: the plaintext, or \<open>None\<close> when
  the library raises (the tag has no admissible length, or does not
  authenticate the data).
\<close>

record cipher =
  seal :: "string \<Rightarrow> string \<Rightarrow> string \<Rightarrow> string \<times> string"
  unseal :: "string \<Rightarrow> string \<Rightarrow> string \<Rightarrow> string \<Rightarrow> string option"

text \<open>The two properties of AES-GCM that the theorems below rely on.\<close>

definition cipher_correct :: "cipher \<Rightarrow> bool" where
  "cipher_correct cph =
     (\<forall>pw aad p. unseal cph pw aad (snd (seal cph pw aad p)) (fst (seal cph pw aad p)) = Some p)"

definition length_preserving :: "cipher \<Rightarrow> bool" where
  "length_preserving cph = (\<forall>pw aad p. length (fst (seal cph pw aad p)) = length p)"

text \<open>
  The interface \<open>EncryptedMessage\<close>. It declares four strings;
  \<open>decrypt\<close> also receives objects parsed from a request body, where a
  property may be absent, so each field is optional.
\<close>

record EncryptedMessage =
  content :: "string option"
  encryptionKey :: "string option"
  iv :: "string option"
  tag :: "string option"

datatype exn = TypeError string | Error string

definition generateKey :: "rng \<Rightarrow> string \<times> rng" where
  "generateKey g = (let (b, g') = randomBytes KEY_LENGTH g in (hex_encode b, g'))"

text \<open>
  \<open>encrypt(plaintext, key?)\<close>. \<open>static_key\<close> is the class's
  \<open>encryptionKey\<close> buffer set by \<open>initialize\<close>. The test \<open>key ? \<dots> : \<dots>\<close>
  and \<open>key || \<dots>\<close> take the default for an absent and for an empty key. The
  initialisation vector is drawn and returned, and not given to the cipher. The
  cipher works on the UTF-8 bytes of the plaintext.
\<close>

definition encrypt ::
  "cipher \<Rightarrow> string \<Rightarrow> utf16 \<Rightarrow> string option \<Rightarrow> rng \<Rightarrow> EncryptedMessage \<times> rng" where
  "encrypt cph static_key plaintext key g =
     (let encryptionKey' =
            (case key of None \<Rightarrow> static_key
             | Some k \<Rightarrow> if k = [] then static_key else hex_decode k);
          (iv', g') = randomBytes IV_LENGTH g;
          (encrypted, tag') = seal cph encryptionKey' AAD (utf8_encode plaintext)
      in (\<lparr>content = Some (hex_encode encrypted),
           encryptionKey =
             Some (case key of None \<Rightarrow> hex_encode static_key
                   | Some k \<Rightarrow> if k = [] then hex_encode static_key else k),
           iv = Some (hex_encode iv'),
           tag = Some (hex_encode tag')\<rparr>, g'))"

text \<open>
  \<open>decrypt(encryptedMessage)\<close>. \<open>Buffer.from(undefined, 'hex')\<close> raises a
  \<open>TypeError\<close>. \<open>update(content, 'hex', 'utf8')\<close> raises a \<open>TypeError\<close> for an
  absent content and for a text of odd length, and otherwise decodes the pairs
  of digits up to the first invalid pair. \<open>final\<close> raises when the tag does
  not verify. The decrypted bytes are returned decoded from UTF-8. \<open>ivBuffer\<close>
  is computed and not used.
\<close>

definition decrypt :: "cipher \<Rightarrow> EncryptedMessage \<Rightarrow> exn + utf16" where
  "decrypt cph encryptedMessage =
     (case encryptionKey encryptedMessage of None \<Rightarrow> Inl (TypeError ''ERR_INVALID_ARG_TYPE'')
      | Some k \<Rightarrow>
     (case iv encryptedMessage of None \<Rightarrow> Inl (TypeError ''ERR_INVALID_ARG_TYPE'')
      | Some i \<Rightarrow>
     (case tag encryptedMessage of None \<Rightarrow> Inl (TypeError ''ERR_INVALID_ARG_TYPE'')
      | Some t \<Rightarrow>
        let key = hex_decode k; ivBuffer = hex_decode i; tagBuffer = hex_decode t in
        (case content encryptedMessage of None \<Rightarrow> Inl (TypeError ''ERR_INVALID_ARG_TYPE'')
         | Some c \<Rightarrow>
           if odd (length c) then Inl (TypeError ''ERR_INVALID_ARG_VALUE'')
           else
             (case unseal cph key AAD tagBuffer (hex_decode c) of
                None \<Rightarrow> Inl (Error ''Unsupported state or unable to authenticate data'')
              | Some decrypted \<Rightarrow> Inr (utf8_decode decrypted))))))"

definition encryptE2E :: "cipher \<Rightarrow> string \<Rightarrow> utf16 \<Rightarrow> rng \<Rightarrow> EncryptedMessage \<times> rng" where
  "encryptE2E cph static_key plaintext g =
     (let (messageKey, g') = generateKey g
      in encrypt cph static_key plaintext (Some messageKey) g')"

subsection \<open>A small cipher with the same interface\<close>

text \<open>
  Used to run the model on concrete inputs: every byte is shifted by a number
  derived from the password, and the tag is \<open>TAG_LENGTH\<close> copies of a checksum
  of password, associated data and plaintext. Like AES-GCM it preserves the
  length of the plaintext and rejects a tag that does not match, so every tag
  of another length.
\<close>

definition key_shift :: "string \<Rightarrow> nat" where
  "key_shift pw = sum_list (map of_char pw) mod 256"

definition shift_mac :: "string \<Rightarrow> string \<Rightarrow> string \<Rightarrow> string" where
  "shift_mac pw aad p =
     replicate TAG_LENGTH (char_of (key_shift pw + sum_list (map of_char (aad @ p))))"

definition shift_seal :: "string \<Rightarrow> string \<Rightarrow> string \<Rightarrow> string \<times> string" where
  "shift_seal pw aad p =
     (map (\<lambda>c. char_of ((of_char c :: nat) + key_shift pw)) p, shift_mac pw aad p)"

definition shift_unseal :: "string \<Rightarrow> string \<Rightarrow> string \<Rightarrow> string \<Rightarrow> string option" where
  "shift_unseal pw aad t c =
     (let p = map (\<lambda>x. char_of ((of_char x :: nat) + (256 - key_shift pw))) c
      in if t = shift_mac pw aad p then Some p else None)"

definition shift_cipher :: cipher where
  "shift_cipher = \<lparr>seal = shift_seal, unseal = shift_unseal\<rparr>"

section \<open>JSON text of an envelope\<close>

text \<open>
  \<open>JSON.stringify\<close> on an \<open>EncryptedMessage\<close>: the defined properties in
  insertion order, each string quoted with the standard escapes. The text is
  built as a \<open>string\<close>; the result is the JavaScript string of that text.
\<close>

definition json_escape :: "char \<Rightarrow> string" where
  "json_escape c =
     (if c = CHR 0x22 then [CHR 0x5C, CHR 0x22]
      else if c = CHR 0x5C then [CHR 0x5C, CHR 0x5C]
      else if c = CHR 0x08 then [CHR 0x5C, CHR ''b'']
      else if c = CHR 0x09 then [CHR 0x5C, CHR ''t'']
      else if c = CHR 0x0A then [CHR 0x5C, CHR ''n'']
      else if c = CHR 0x0C then [CHR 0x5C, CHR ''f'']
      else if c = CHR 0x0D then [CHR 0x5C, CHR ''r'']
      else if (of_char c :: nat) < 32
        then [CHR 0x5C, CHR ''u'', CHR ''0'', CHR ''0'',
              hex_digit (of_char c div 16), hex_digit (of_char c mod 16)]
      else [c])"

text \<open>A string that \<open>JSON.stringify\<close> quotes without any escape.\<close>

definition plain :: "string \<Rightarrow> bool" where
  "plain s = (\<forall>c\<in>set s. json_escape c = [c] \<and> c \<noteq> CHR 0x22 \<and> c \<noteq> CHR 0x5C)"

definition json_quote :: "string \<Rightarrow> string" where
  "json_quote s = CHR 0x22 # concat (map json_escape s) @ [CHR 0x22]"

definition json_member :: "string \<Rightarrow> string option \<Rightarrow> string list" where
  "json_member name v =
     (case v of None \<Rightarrow> [] | Some s \<Rightarrow> [json_quote name @ '':'' @ json_quote s])"

fun join_commas :: "string list \<Rightarrow> string" where
  "join_commas [] = []"
| "join_commas [x] = x"
| "join_commas (x # y # ys) = x @ '','' @ join_commas (y # ys)"

definition envelope_text :: "EncryptedMessage \<Rightarrow> string" where
  "envelope_text e =
     ''{'' @ join_commas (json_member ''content'' (content e)
                         @ json_member ''encryptionKey'' (encryptionKey e)
                         @ json_member ''iv'' (iv e)
                         @ json_member ''tag'' (tag e)) @ ''}''"

definition JSON_stringify :: "EncryptedMessage \<Rightarrow> utf16" where
  "JSON_stringify e = js_text (envelope_text e)"

text \<open>
  \<open>JSON.parse\<close>, restricted to the texts a reader of a stored message needs: an
  object of exactly the four envelope properties whose values hold no escape
  and no code unit above 255. Any other text gives \<open>None\<close>.
\<close>

fun split_dq :: "string \<Rightarrow> string list" where
  "split_dq [] = [[]]"
| "split_dq (c # cs) =
     (if c = CHR 0x22 then [] # split_dq cs
      else (case split_dq cs of [] \<Rightarrow> [[c]] | w # ws \<Rightarrow> (c # w) # ws))"

definition parse_envelope_text :: "string \<Rightarrow> EncryptedMessage option" where
  "parse_envelope_text s =
     (let ts = split_dq s in
      if length ts = 17
         \<and> [ts ! 0, ts ! 1, ts ! 2, ts ! 4, ts ! 5, ts ! 6, ts ! 8, ts ! 9, ts ! 10,
             ts ! 12, ts ! 13, ts ! 14, ts ! 16]
           = [''{'', ''content'', '':'', '','', ''encryptionKey'', '':'', '','', ''iv'', '':'',
              '','', ''tag'', '':'', ''}'']
         \<and> CHR 0x5C \<notin> set (ts ! 3 @ ts ! 7 @ ts ! 11 @ ts ! 15)
      then Some \<lparr>content = Some (ts ! 3), encryptionKey = Some (ts ! 7),
                  iv = Some (ts ! 11), tag = Some (ts ! 15)\<rparr>
      else None)"

definition JSON_parse :: "utf16 \<Rightarrow> EncryptedMessage option" where
  "JSON_parse s =
     (if list_all (\<lambda>u. u < 256) s then parse_envelope_text (map char_of s) else None)"

section \<open>The record store: DatabaseService (unnamed/part_002) and the schema migration\<close>

record team_row =
  team_id :: string
  team_name :: string
  team_description :: string

record member_row =
  m_team_id :: string
  m_user_id :: string
  m_role :: string
  m_status :: string

record message_row =
  msg_id :: string
  msg_team_id :: string
  msg_mission_id :: "string option"
  msg_sender_id :: string
  msg_content :: utf16
  msg_is_encrypted :: bool

record notification_row =
  n_user_id :: string
  n_type :: string
  n_title :: string
  n_content :: string

record auth_user =
  au_id :: string
  au_email :: string

record profile_row =
  p_user_id :: string
  p_first_name :: string

record db =
  teams :: "team_row list"
  team_members :: "member_row list"
  messages :: "message_row list"
  notifications :: "notification_row list"
  auth_users :: "auth_user list"
  user_profiles :: "profile_row list"

text \<open>
  The store is a remote service: any request may be answered with an error
  (connectivity, a violated constraint). Which requests are is given by an
  oracle over the requests the handlers make; the Supabase client reports such
  an error in its result and does not raise.
\<close>

datatype request =
    Select_member string string
  | Select_role string string
  | Select_leaders string
  | Select_team_members string
  | Select_user_teams string
  | Select_team string
  | Get_user string
  | Select_profile string
  | Insert_team
  | Insert_member
  | Insert_message
  | Insert_notification string
  | Update_status string string
  | Delete_team string
  | Delete_member string string

type_synonym faults = "request \<Rightarrow> bool"

definition no_faults :: faults where
  "no_faults = (\<lambda>r. False)"

definition store_error :: string where
  "store_error = ''store error''"

text \<open>\<open>.single()\<close>: the row when exactly one matches, an error otherwise.\<close>

definition single :: "'a list \<Rightarrow> 'a option" where
  "single xs = (case xs of [x] \<Rightarrow> Some x | _ \<Rightarrow> None)"

definition member_rows :: "db \<Rightarrow> string \<Rightarrow> string \<Rightarrow> member_row list" where
  "member_rows d userId teamId =
     filter (\<lambda>m. m_user_id m = userId \<and> m_team_id m = teamId) (team_members d)"

definition isTeamMember :: "faults \<Rightarrow> db \<Rightarrow> string \<Rightarrow> string \<Rightarrow> bool" where
  "isTeamMember fl d userId teamId =
     (\<not> fl (Select_member userId teamId) \<and> single (member_rows d userId teamId) \<noteq> None)"

definition isTeamLeader :: "faults \<Rightarrow> db \<Rightarrow> string \<Rightarrow> string \<Rightarrow> bool" where
  "isTeamLeader fl d userId teamId =
     (\<not> fl (Select_role userId teamId) \<and>
      (case single (member_rows d userId teamId) of
         None \<Rightarrow> False
       | Some m \<Rightarrow> m_role m = ''leader''))"

record user_info =
  ui_id :: string
  ui_email :: string
  ui_profile :: "profile_row option"

definition getUserById :: "faults \<Rightarrow> db \<Rightarrow> string \<Rightarrow> exn + user_info" where
  "getUserById fl d userId =
     (if fl (Get_user userId) then Inl (Error ''User not found'')
      else (case find (\<lambda>u. au_id u = userId) (auth_users d) of
              None \<Rightarrow> Inl (Error ''User not found'')
            | Some u \<Rightarrow>
                Inr \<lparr>ui_id = au_id u, ui_email = au_email u,
                     ui_profile =
                       (if fl (Select_profile userId) then None
                        else single (filter (\<lambda>p. p_user_id p = userId) (user_profiles d)))\<rparr>))"

definition getUserTeams :: "faults \<Rightarrow> db \<Rightarrow> string \<Rightarrow> exn + member_row list" where
  "getUserTeams fl d userId =
     (if fl (Select_user_teams userId) then Inl (Error ''Failed to fetch user teams'')
      else Inr (filter (\<lambda>m. m_user_id m = userId) (team_members d)))"

text \<open>\<open>Promise.all\<close>: all the results, or the rejection of one of them.\<close>

fun promise_all :: "('e + 'a) list \<Rightarrow> 'e + 'a list" where
  "promise_all [] = Inr []"
| "promise_all (x # xs) =
     (case x of
        Inl e \<Rightarrow> Inl e
      | Inr v \<Rightarrow> (case promise_all xs of Inl e \<Rightarrow> Inl e | Inr vs \<Rightarrow> Inr (v # vs)))"

definition getTeamMembers :: "faults \<Rightarrow> db \<Rightarrow> string \<Rightarrow> exn + (member_row \<times> user_info) list" where
  "getTeamMembers fl d teamId =
     (if fl (Select_team_members teamId) then Inl (Error ''Failed to fetch team members'')
      else promise_all
             (map (\<lambda>member. case getUserById fl d (m_user_id member) of
                               Inl e \<Rightarrow> Inl e
                             | Inr user \<Rightarrow> Inr (member, user))
                  (filter (\<lambda>m. m_team_id m = teamId) (team_members d))))"

definition createNotification :: "faults \<Rightarrow> notification_row \<Rightarrow> db \<Rightarrow> exn + db" where
  "createNotification fl n d =
     (if fl (Insert_notification (n_user_id n)) then Inl (Error ''Failed to create notification'')
      else Inr (d\<lparr>notifications := notifications d @ [n]\<rparr>))"

text \<open>Deleting a team row cascades to the rows that reference it.\<close>

definition delete_team :: "string \<Rightarrow> db \<Rightarrow> db" where
  "delete_team tid d =
     d\<lparr>teams := filter (\<lambda>t. team_id t \<noteq> tid) (teams d),
       team_members := filter (\<lambda>m. m_team_id m \<noteq> tid) (team_members d),
       messages := filter (\<lambda>m. msg_team_id m \<noteq> tid) (messages d)\<rparr>"

definition display_name :: "user_info \<Rightarrow> string" where
  "display_name u =
     (case ui_profile u of
        None \<Rightarrow> ui_email u
      | Some p \<Rightarrow> if p_first_name p = [] then ui_email u else p_first_name p)"

section \<open>HTTP responses\<close>

record 'a response =
  res_status :: nat
  res_success :: bool
  res_error :: "string option"
  res_message :: "string option"
  res_data :: "'a option"

definition failure :: "nat \<Rightarrow> string \<Rightarrow> string option \<Rightarrow> 'a response" where
  "failure code err msg =
     \<lparr>res_status = code, res_success = False, res_error = Some err,
      res_message = msg, res_data = None\<rparr>"

fun exn_message :: "exn \<Rightarrow> string" where
  "exn_message (TypeError m) = m"
| "exn_message (Error m) = m"

section \<open>TeamController (backend/src/controllers/notificationController.ts, second part)\<close>

record TeamWithMembers =
  twm_team :: team_row
  twm_members :: "(member_row \<times> user_info) list"

definition getTeamWithMembers :: "faults \<Rightarrow> db \<Rightarrow> string \<Rightarrow> exn + TeamWithMembers" where
  "getTeamWithMembers fl d teamId =
     (case (if fl (Select_team teamId) then None
            else single (filter (\<lambda>t. team_id t = teamId) (teams d))) of
        None \<Rightarrow> Inl (Error ''Team not found'')
      | Some team \<Rightarrow>
          (case getTeamMembers fl d teamId of
             Inl e \<Rightarrow> Inl e
           | Inr members \<Rightarrow> Inr \<lparr>twm_team = team, twm_members = members\<rparr>))"

text \<open>
  \<open>createTeam\<close>. \<open>new_id\<close> is the identifier the store generates for the team
  row. The result of the compensating delete is not inspected.

  The handler calls \<open>this.getTeamWithMembers\<close>. The router (backend/src/routes/teams.ts)
  registers \<open>TeamController.createTeam\<close> as a plain function, so it runs
  without a receiver: \<open>this\<close> is \<open>undefined\<close>, the call raises a \<open>TypeError\<close>
  and the handler answers 500. The handler takes the value of \<open>this\<close> as a
  parameter; the routed program runs it with \<open>TeamController_this\<close>.
\<close>

datatype controller = TeamController

definition TeamController_this :: "controller option" where
  "TeamController_this = None"

definition undefined_member :: "string \<Rightarrow> string" where
  "undefined_member name =
     ''Cannot read properties of undefined (reading '' @ [CHR 0x27] @ name @ [CHR 0x27] @ '')''"

definition createTeam ::
  "controller option \<Rightarrow> faults \<Rightarrow> string \<Rightarrow> string option \<Rightarrow> string \<Rightarrow> string option \<Rightarrow> db
     \<Rightarrow> TeamWithMembers response \<times> db" where
  "createTeam this fl new_id req_user name description d =
     (case req_user of
        None \<Rightarrow> (failure 401 ''Authentication required'' None, d)
      | Some uid \<Rightarrow>
          if fl Insert_team
          then (failure 400 ''Failed to create team'' (Some store_error), d)
          else
            let team = \<lparr>team_id = new_id, team_name = name,
                        team_description = (case description of None \<Rightarrow> [] | Some x \<Rightarrow> x)\<rparr>;
                d1 = d\<lparr>teams := teams d @ [team]\<rparr>
            in if fl Insert_member
               then (failure 400 ''Failed to add team leader'' (Some store_error),
                     if fl (Delete_team new_id) then d1 else delete_team new_id d1)
               else
                 let d2 = d1\<lparr>team_members := team_members d1 @
                            [\<lparr>m_team_id = new_id, m_user_id = uid,
                              m_role = ''leader'', m_status = ''offline''\<rparr>]\<rparr>
                 in (case (case this of
                             None \<Rightarrow> Inl (TypeError (undefined_member ''getTeamWithMembers''))
                           | Some c \<Rightarrow> getTeamWithMembers fl d2 new_id) of
                       Inl e \<Rightarrow> (failure 500 ''Failed to create team'' (Some (exn_message e)), d2)
                     | Inr teamWithMembers \<Rightarrow>
                         (\<lparr>res_status = 201, res_success = True, res_error = None,
                           res_message = Some ''Team created successfully'',
                           res_data = Some teamWithMembers\<rparr>, d2)))"

text \<open>
  \<open>removeTeamMember\<close>. \<open>leaders\<close> is \<open>null\<close> when the query for the team's
  leaders is answered with an error, and the guard \<open>leaders && leaders.length <= 1\<close>
  is then false.
\<close>

definition select_leaders :: "faults \<Rightarrow> db \<Rightarrow> string \<Rightarrow> member_row list option" where
  "select_leaders fl d teamId =
     (if fl (Select_leaders teamId) then None
      else Some (filter (\<lambda>m. m_team_id m = teamId \<and> m_role m = ''leader'') (team_members d)))"

definition removeTeamMember ::
  "faults \<Rightarrow> string option \<Rightarrow> string \<Rightarrow> string \<Rightarrow> db \<Rightarrow> unit response \<times> db" where
  "removeTeamMember fl req_user teamId userId d =
     (case req_user of
        None \<Rightarrow> (failure 401 ''Authentication required'' None, d)
      | Some me \<Rightarrow>
          let isLeader = isTeamLeader fl d me teamId;
              isRemovingSelf = (me = userId)
          in if \<not> isLeader \<and> \<not> isRemovingSelf
             then (failure 403 ''Access denied''
                     (Some ''Only team leaders can remove members or you can leave the team yourself''), d)
             else if isRemovingSelf \<and> isLeader \<and>
                     (case select_leaders fl d teamId of
                        None \<Rightarrow> False
                      | Some leaders \<Rightarrow> length leaders \<le> 1)
             then (failure 400 ''Cannot leave team''
                     (Some ''You are the only team leader. Please assign another leader before leaving.''), d)
             else if fl (Delete_member teamId userId)
             then (failure 400 ''Failed to remove team member'' (Some store_error), d)
             else (\<lparr>res_status = 200, res_success = True, res_error = None,
                    res_message = Some (if isRemovingSelf then ''Left team successfully''
                                        else ''Team member removed successfully''),
                    res_data = None\<rparr>,
                   d\<lparr>team_members :=
                        filter (\<lambda>m. \<not> (m_team_id m = teamId \<and> m_user_id m = userId))
                               (team_members d)\<rparr>))"

text \<open>The status code of the class \<open>ConflictError\<close> (backend/src/routes/teams.ts, last part).\<close>

definition ConflictError_statusCode :: nat where
  "ConflictError_statusCode = 409"

section \<open>Realtime events (backend/src/routes/teams.ts: WebSocketEvents)\<close>

record MessageWithSender =
  mws_message :: message_row
  mws_sender :: user_info

text \<open>
  \<open>io.to(room).emit\<close> reaches the sockets joined to a room (a socket's own
  identifier is a room of its own); \<open>socket.emit\<close> reaches one socket.
\<close>

datatype target = To string | Direct string

datatype event =
    Message_new MessageWithSender string
  | User_status_update string string string
  | Notification_new string string string
  | Error_event string

datatype effect =
    Emit target event
  | Status_written string string string

text \<open>A broadcast of \<open>user:status_update\<close> to a room.\<close>

fun is_status_broadcast :: "effect \<Rightarrow> bool" where
  "is_status_broadcast (Emit (To r) (User_status_update u s t)) = True"
| "is_status_broadcast e = False"

definition team_room :: "string \<Rightarrow> string" where
  "team_room teamId = ''team:'' @ teamId"

section \<open>MessageController.sendMessage (backend/src/controllers/notificationController.ts, third part)\<close>

record SendMessageRequest =
  req_team_id :: string
  req_mission_id :: "string option"
  req_content :: utf16
  req_is_encrypted :: "bool option"

record send_data =
  sd_message :: MessageWithSender
  sd_encryptionKey :: "string option"

fun createNotifications :: "faults \<Rightarrow> notification_row list \<Rightarrow> db \<Rightarrow> db \<times> exn option" where
  "createNotifications fl [] d = (d, None)"
| "createNotifications fl (n # ns) d =
     (case createNotification fl n d of
        Inl e \<Rightarrow> (d, Some e)
      | Inr d' \<Rightarrow> createNotifications fl ns d')"

definition message_notification :: "user_info \<Rightarrow> member_row \<times> user_info \<Rightarrow> notification_row" where
  "message_notification sender member =
     \<lparr>n_user_id = m_user_id (fst member), n_type = ''message'', n_title = ''New Message'',
      n_content = ''New message from '' @ display_name sender @ '' in team chat''\<rparr>"

text \<open>
  \<open>ws\<close> tells whether \<open>app.locals.wsService\<close> is set, \<open>new_id\<close> is the
  identifier the store gives the message row. An absent or empty
  \<open>mission_id\<close> is stored as \<open>null\<close>.
\<close>

definition sendMessage ::
  "cipher \<Rightarrow> string \<Rightarrow> faults \<Rightarrow> bool \<Rightarrow> string \<Rightarrow> string option \<Rightarrow> SendMessageRequest
     \<Rightarrow> db \<Rightarrow> rng \<Rightarrow> send_data response \<times> db \<times> rng \<times> effect list" where
  "sendMessage cph static_key fl ws new_id req_user req d g =
     (case req_user of
        None \<Rightarrow> (failure 401 ''Authentication required'' None, d, g, [])
      | Some uid \<Rightarrow>
          let is_encrypted = (case req_is_encrypted req of None \<Rightarrow> True | Some b \<Rightarrow> b) in
          if \<not> isTeamMember fl d uid (req_team_id req)
          then (failure 403 ''Access denied'' (Some ''You are not a member of this team''), d, g, [])
          else
            let (encryptionData, g') =
                  (if is_encrypted
                   then (let (encrypted, g1) = encryptE2E cph static_key (req_content req) g
                         in (Some encrypted, g1))
                   else (None, g));
                processedContent =
                  (case encryptionData of
                     None \<Rightarrow> req_content req
                   | Some encrypted \<Rightarrow> JSON_stringify encrypted)
            in if fl Insert_message
               then (failure 400 ''Failed to send message'' (Some store_error), d, g', [])
               else
                 let message = \<lparr>msg_id = new_id, msg_team_id = req_team_id req,
                                msg_mission_id =
                                  (case req_mission_id req of
                                     None \<Rightarrow> None
                                   | Some m \<Rightarrow> if m = [] then None else Some m),
                                msg_sender_id = uid, msg_content = processedContent,
                                msg_is_encrypted = is_encrypted\<rparr>;
                     d1 = d\<lparr>messages := messages d @ [message]\<rparr>
                 in (case getUserById fl d1 uid of
                       Inl e \<Rightarrow> (failure 500 ''Failed to send message'' (Some (exn_message e)), d1, g', [])
                     | Inr sender \<Rightarrow>
                       let messageWithSender = \<lparr>mws_message = message, mws_sender = sender\<rparr> in
                       (case getTeamMembers fl d1 (req_team_id req) of
                          Inl e \<Rightarrow>
                            (failure 500 ''Failed to send message'' (Some (exn_message e)), d1, g', [])
                        | Inr teamMembers \<Rightarrow>
                          let otherMembers = filter (\<lambda>member. m_user_id (fst member) \<noteq> uid) teamMembers
                          in (case createNotifications fl (map (message_notification sender) otherMembers) d1 of
                                (d2, Some e) \<Rightarrow>
                                  (failure 500 ''Failed to send message'' (Some (exn_message e)), d2, g', [])
                              | (d2, None) \<Rightarrow>
                                  (\<lparr>res_status = 201, res_success = True, res_error = None,
                                    res_message = Some ''Message sent successfully'',
                                    res_data =
                                      Some \<lparr>sd_message = messageWithSender,
                                            sd_encryptionKey =
                                              (case encryptionData of
                                                 None \<Rightarrow> None
                                               | Some encrypted \<Rightarrow>
                                                   (case encryptionKey encrypted of
                                                      None \<Rightarrow> None
                                                    | Some k \<Rightarrow> if k = [] then None else Some k))\<rparr>\<rparr>,
                                   d2, g',
                                   if ws
                                   then [Emit (To (team_room (req_team_id req)))
                                              (Message_new messageWithSender (req_team_id req))]
                                   else [])))))"

text \<open>
  What a client joined to a room reads from the \<open>message:new\<close> events sent to
  rooms: the envelope parsed from the content of each broadcast message.
\<close>

fun broadcast_envelopes :: "effect list \<Rightarrow> EncryptedMessage option list" where
  "broadcast_envelopes [] = []"
| "broadcast_envelopes (Emit (To room) (Message_new m t) # es) =
     JSON_parse (msg_content (mws_message m)) # broadcast_envelopes es"
| "broadcast_envelopes (e # es) = broadcast_envelopes es"

section \<open>WebSocketService (backend/src/routes/teams.ts, second part)\<close>

record socket =
  sock_id :: string
  sock_user :: string
  rooms :: "string set"
  connected :: bool

text \<open>
  The handlers read \<open>DatabaseService.supabaseAdmin\<close>. The class
  \<open>DatabaseService\<close> (unnamed/part_002) declares static methods only, and
  \<open>supabaseAdmin\<close> is a constant of the module beside it, so the property is
  \<open>undefined\<close> and calling \<open>.from\<close> on it raises a \<open>TypeError\<close>. The handlers
  take the value of the property as a parameter; the program runs them with
  \<open>DatabaseService_supabaseAdmin\<close>.
\<close>

datatype client = SupabaseClient

definition DatabaseService_supabaseAdmin :: "client option" where
  "DatabaseService_supabaseAdmin = None"

definition set_status :: "string \<Rightarrow> string \<Rightarrow> string \<Rightarrow> db \<Rightarrow> db" where
  "set_status userId teamId st d =
     d\<lparr>team_members :=
         map (\<lambda>m. if m_user_id m = userId \<and> m_team_id m = teamId then m\<lparr>m_status := st\<rparr> else m)
             (team_members d)\<rparr>"

definition status_notification :: "string \<Rightarrow> string \<Rightarrow> string \<Rightarrow> notification_row" where
  "status_notification recipient userName st =
     \<lparr>n_user_id = recipient, n_type = ''status_change'',
      n_title = ''Team Member Status Update'',
      n_content = userName @ '' status changed to '' @ st\<rparr>"

fun notify_status ::
  "faults \<Rightarrow> (string \<rightharpoonup> string) \<Rightarrow> string \<Rightarrow> string \<Rightarrow> string
     \<Rightarrow> (member_row \<times> user_info) list \<Rightarrow> db \<Rightarrow> db \<times> effect list \<times> exn option" where
  "notify_status fl connectedUsers uid userName st [] d = (d, [], None)"
| "notify_status fl connectedUsers uid userName st (member # rest) d =
     (if m_user_id (fst member) \<noteq> uid
      then (case createNotification fl (status_notification (m_user_id (fst member)) userName st) d of
              Inl e \<Rightarrow> (d, [], Some e)
            | Inr d1 \<Rightarrow>
                let sent = (case connectedUsers (m_user_id (fst member)) of
                              None \<Rightarrow> []
                            | Some memberSocketId \<Rightarrow>
                                if memberSocketId = [] then []
                                else [Emit (To memberSocketId)
                                        (Notification_new ''status_change''
                                           ''Team Member Status Update''
                                           (userName @ '' status changed to '' @ st))]);
                    (d2, es, r) = notify_status fl connectedUsers uid userName st rest d1
                in (d2, sent @ es, r))
      else notify_status fl connectedUsers uid userName st rest d)"

text \<open>
  The \<open>status_update\<close> handler of a socket. Every exception inside it is caught
  and answered with an \<open>error\<close> event on the socket.
\<close>

definition status_update ::
  "client option \<Rightarrow> faults \<Rightarrow> (string \<rightharpoonup> string) \<Rightarrow> socket \<Rightarrow> string \<Rightarrow> string \<Rightarrow> db
     \<Rightarrow> db \<times> effect list" where
  "status_update admin fl connectedUsers sock teamId st d =
     (let uid = sock_user sock;
          failed = Emit (Direct (sock_id sock)) (Error_event ''Failed to update status'')
      in if \<not> isTeamMember fl d uid teamId
         then (d, [Emit (Direct (sock_id sock)) (Error_event ''Not a team member'')])
         else (case admin of
                 None \<Rightarrow> (d, [failed])
               | Some c \<Rightarrow>
                   if fl (Update_status uid teamId) then (d, [failed])
                   else
                     let d1 = set_status uid teamId st d;
                         done = [Status_written uid teamId st,
                                 Emit (To (team_room teamId)) (User_status_update uid st teamId)]
                     in (case getTeamMembers fl d1 teamId of
                           Inl e \<Rightarrow> (d1, done @ [failed])
                         | Inr teamMembers \<Rightarrow>
                             (case getUserById fl d1 uid of
                                Inl e \<Rightarrow> (d1, done @ [failed])
                              | Inr userDetails \<Rightarrow>
                                  (case notify_status fl connectedUsers uid
                                          (display_name userDetails) st teamMembers d1 of
                                     (d2, es, None) \<Rightarrow> (d2, done @ es)
                                   | (d2, es, Some e) \<Rightarrow> (d2, done @ es @ [failed]))))))"

text \<open>
  \<open>updateUserOfflineStatus\<close>: one \<open>try\<close> encloses the whole loop, so an
  exception in one iteration ends it; an error reported in the result of the
  update is not inspected.
\<close>

fun offline_loop ::
  "client option \<Rightarrow> faults \<Rightarrow> string \<Rightarrow> member_row list \<Rightarrow> db \<Rightarrow> db \<times> effect list" where
  "offline_loop admin fl userId [] d = (d, [])"
| "offline_loop admin fl userId (teamMembership # rest) d =
     (case admin of
        None \<Rightarrow> (d, [])
      | Some c \<Rightarrow>
          let tid = m_team_id teamMembership;
              written = \<not> fl (Update_status userId tid);
              d1 = (if written then set_status userId tid ''offline'' d else d);
              (d2, es) = offline_loop admin fl userId rest d1
          in (d2, (if written then [Status_written userId tid ''offline''] else [])
                  @ Emit (To (team_room tid)) (User_status_update userId ''offline'' tid) # es))"

definition updateUserOfflineStatus ::
  "client option \<Rightarrow> faults \<Rightarrow> string \<Rightarrow> db \<Rightarrow> db \<times> effect list" where
  "updateUserOfflineStatus admin fl userId d =
     (case getUserTeams fl d userId of
        Inl e \<Rightarrow> (d, [])
      | Inr userTeams \<Rightarrow> offline_loop admin fl userId userTeams d)"

text \<open>The \<open>disconnect\<close> handler of a socket.\<close>

definition on_disconnect ::
  "client option \<Rightarrow> faults \<Rightarrow> socket \<Rightarrow> (string \<rightharpoonup> string) \<Rightarrow> db
     \<Rightarrow> (string \<rightharpoonup> string) \<times> db \<times> effect list" where
  "on_disconnect admin fl sock connectedUsers d =
     (let (d', es) = updateUserOfflineStatus admin fl (sock_user sock) d
      in (connectedUsers(sock_user sock := None), d', es))"

definition joinTeam ::
  "faults \<Rightarrow> db \<Rightarrow> socket \<Rightarrow> string \<Rightarrow> string \<Rightarrow> socket \<times> effect list" where
  "joinTeam fl d sock teamId userId =
     (if \<not> isTeamMember fl d userId teamId
      then (sock, [Emit (Direct (sock_id sock)) (Error_event ''Not a team member'')])
      else (sock\<lparr>rooms := insert (team_room teamId) (rooms sock)\<rparr>, []))"

definition joinUserTeams :: "faults \<Rightarrow> db \<Rightarrow> socket \<Rightarrow> string \<Rightarrow> socket" where
  "joinUserTeams fl d sock userId =
     (case getUserTeams fl d userId of
        Inl e \<Rightarrow> sock
      | Inr userTeams \<Rightarrow>
          sock\<lparr>rooms := rooms sock \<union> set (map (\<lambda>teamMembership. team_room (m_team_id teamMembership)) userTeams)\<rparr>)"

section \<open>A concrete scenario\<close>

text \<open>
  Team \<open>T\<close> has the leader \<open>A\<close> and the member \<open>B\<close>; \<open>A\<close> sends the message
  \<open>status?\<close>. The random source counts upwards from zero.
\<close>

definition demo_rng :: rng where
  "demo_rng = (\<lambda>i. char_of i)"

definition demo_static_key :: string where
  "demo_static_key = ''0123456789abcdef0123456789abcdef''"

definition demo_db :: db where
  "demo_db =
     \<lparr>teams = [\<lparr>team_id = ''T'', team_name = ''Alpha'', team_description = []\<rparr>],
      team_members =
        [\<lparr>m_team_id = ''T'', m_user_id = ''A'', m_role = ''leader'', m_status = ''safe''\<rparr>,
         \<lparr>m_team_id = ''T'', m_user_id = ''B'', m_role = ''member'', m_status = ''safe''\<rparr>],
      messages = [],
      notifications = [],
      auth_users = [\<lparr>au_id = ''A'', au_email = ''a@x.org''\<rparr>, \<lparr>au_id = ''B'', au_email = ''b@x.org''\<rparr>],
      user_profiles = []\<rparr>"

text \<open>The same team after \<open>B\<close> has been made a second leader.\<close>

definition demo_db_two_leaders :: db where
  "demo_db_two_leaders =
     demo_db\<lparr>team_members :=
        [\<lparr>m_team_id = ''T'', m_user_id = ''A'', m_role = ''leader'', m_status = ''safe''\<rparr>,
         \<lparr>m_team_id = ''T'', m_user_id = ''B'', m_role = ''leader'', m_status = ''safe''\<rparr>]\<rparr>"

definition demo_request :: SendMessageRequest where
  "demo_request =
     \<lparr>req_team_id = ''T'', req_mission_id = None, req_content = js_text ''status?'',
      req_is_encrypted = Some True\<rparr>"

definition demo_socket :: socket where
  "demo_socket = \<lparr>sock_id = ''s1'', sock_user = ''A'', rooms = {}, connected = True\<rparr>"

section \<open>Facts about hexadecimal text and JSON\<close>

lemma hex_val_digit: "n < 16 \<Longrightarrow> hex_val (hex_digit n) = Some n"
proof -
  have "\<forall>n\<in>set [0..<16]. hex_val (hex_digit n) = Some n" by code_simp
  then show "n < 16 \<Longrightarrow> hex_val (hex_digit n) = Some n" by simp
qed

lemma of_char_lt_256: "(of_char c :: nat) < 256"
  using of_char_mod_256 [of c, where ?'a = nat] by (metis mod_less_divisor zero_less_numeral)

lemma hex_decode_encode: "hex_decode (hex_encode bs) = bs"
proof (induction bs)
  case Nil show ?case by simp
next
  case (Cons c cs)
  have a: "(of_char c :: nat) div 16 < 16" using of_char_lt_256 [of c] by arith
  have b: "(of_char c :: nat) mod 16 < 16" by simp
  have "char_of (16 * ((of_char c::nat) div 16) + of_char c mod 16) = c"
    by simp
  with Cons a b show ?case by (simp add: hex_val_digit)
qed

lemma length_hex_encode: "length (hex_encode bs) = 2 * length bs"
  by (induction bs) auto

lemma hex_encode_inject: "hex_encode a = hex_encode b \<longleftrightarrow> a = b"
  by (metis hex_decode_encode)

lemma plain_hex_digit: "json_escape (hex_digit n) = [hex_digit n] \<and> hex_digit n \<noteq> CHR 0x22 \<and> hex_digit n \<noteq> CHR 0x5C"
proof -
  have "\<forall>n\<in>set [0..<16]. json_escape (hex_digit n) = [hex_digit n] \<and> hex_digit n \<noteq> CHR 0x22 \<and> hex_digit n \<noteq> CHR 0x5C"
    by code_simp
  moreover have "hex_digit n = hex_digit (n mod 16)" by (simp add: hex_digit_def)
  moreover have "n mod 16 \<in> set [0..<16]" by simp
  ultimately show ?thesis by metis
qed

lemma plain_hex_encode: "plain (hex_encode bs)"
  by (induction bs) (auto simp: plain_def plain_hex_digit)

lemma json_quote_plain: "plain s \<Longrightarrow> json_quote s = CHR 0x22 # s @ [CHR 0x22]"
proof -
  assume "plain s"
  then have "concat (map json_escape s) = s"
    by (induction s) (auto simp: plain_def)
  then show ?thesis by (simp add: json_quote_def)
qed

lemma split_dq_plain: "CHR 0x22 \<notin> set a \<Longrightarrow> split_dq a = [a]"
  by (induction a) auto

lemma split_dq_app: "CHR 0x22 \<notin> set a \<Longrightarrow> split_dq (a @ CHR 0x22 # b) = a # split_dq b"
  by (induction a) auto

lemma plain_no_dq: "plain s \<Longrightarrow> CHR 0x22 \<notin> set s"
  unfolding plain_def by blast

lemma plain_no_bs: "plain s \<Longrightarrow> CHR 0x5C \<notin> set s"
  unfolding plain_def by blast

lemma json_quote_names:
  "json_quote ''content'' = CHR 0x22 # ''content'' @ [CHR 0x22]"
  "json_quote ''encryptionKey'' = CHR 0x22 # ''encryptionKey'' @ [CHR 0x22]"
  "json_quote ''iv'' = CHR 0x22 # ''iv'' @ [CHR 0x22]"
  "json_quote ''tag'' = CHR 0x22 # ''tag'' @ [CHR 0x22]"
  by (simp_all add: json_quote_def json_escape_def)

lemma split_dq_stringify:
  assumes "plain c" "plain k" "plain i" "plain t"
  shows "split_dq (envelope_text \<lparr>content = Some c, encryptionKey = Some k, iv = Some i, tag = Some t\<rparr>)
      = [''{'', ''content'', '':'', c, '','', ''encryptionKey'', '':'', k, '','', ''iv'', '':'', i, '','',
         ''tag'', '':'', t, ''}'']"
  using assms
  by (simp add: envelope_text_def json_member_def json_quote_names json_quote_plain
        split_dq_app split_dq_plain plain_no_dq)

lemma parse_envelope_text_inverse:
  assumes "plain c" "plain k" "plain i" "plain t"
  shows "parse_envelope_text (envelope_text \<lparr>content = Some c, encryptionKey = Some k, iv = Some i, tag = Some t\<rparr>)
         = Some \<lparr>content = Some c, encryptionKey = Some k, iv = Some i, tag = Some t\<rparr>"
  using assms by (simp add: parse_envelope_text_def split_dq_stringify plain_no_bs)

lemma js_text_inverse: "map char_of (js_text s) = s \<and> list_all (\<lambda>u. u < 256) (js_text s)"
  by (simp add: js_text_def o_def list_all_iff of_char_lt_256)

lemma JSON_parse_stringify:
  assumes "plain c" "plain k" "plain i" "plain t"
  shows "JSON_parse (JSON_stringify \<lparr>content = Some c, encryptionKey = Some k, iv = Some i, tag = Some t\<rparr>)
         = Some \<lparr>content = Some c, encryptionKey = Some k, iv = Some i, tag = Some t\<rparr>"
  using assms
  by (simp add: JSON_parse_def JSON_stringify_def js_text_inverse parse_envelope_text_inverse)

section \<open>Facts about UTF-8\<close>

lemma oc: "n < 256 \<Longrightarrow> (of_char (char_of n) :: nat) = n"
  by simp

lemma split64: "\<exists>q a. u = 64 * q + a \<and> a < 64 \<and> u div 64 = q \<and> u mod 64 = (a::nat)"
  by (rule exI [of _ "u div 64"], rule exI [of _ "u mod 64"]) simp

lemma mod64_128: "a < 64 \<Longrightarrow> (128 + a) mod 64 = (a::nat)"
proof -
  assume "a < 64"
  have "(128 + a) mod 64 = (64 * 2 + a) mod 64" by simp
  also have "\<dots> = a mod 64" by (simp only: mod_mult_self4)
  finally show ?thesis using \<open>a < 64\<close> by simp
qed

lemma cont_byte: "a < 64 \<Longrightarrow> between 0x80 0xBF (char_of (0x80 + a)) \<and> low6 (char_of (0x80 + a)) = a"
  by (simp add: between_def low6_def oc mod64_128)

lemma dec1: "u < 0x80 \<Longrightarrow> utf8_decode (char_of u # bs) = u # utf8_decode bs"
  by (simp add: oc)

lemma dec2:
  assumes "0x80 \<le> u" "u < 0x800"
  shows "utf8_decode (char_of (0xC0 + u div 64) # char_of (0x80 + u mod 64) # bs) = u # utf8_decode bs"
proof -
  obtain q a where u: "u = 64 * q + a" "a < 64" "u div 64 = q" "u mod 64 = a"
    using split64 by blast
  have q: "2 \<le> q" "q < 32" using assms u(1,2) by linarith+
  have n: "(of_char (char_of (0xC0 + q)) :: nat) = 0xC0 + q" using q by (simp add: oc)
  show ?thesis
    unfolding u(3,4)
    using q cont_byte [OF u(2)] u(1)
    by (simp add: n Let_def)
qed


lemma dec3:
  assumes "0x800 \<le> u" "u < 0x10000" "\<not> (0xD800 \<le> u \<and> u < 0xE000)"
  shows "utf8_decode (char_of (0xE0 + u div 64 div 64) # char_of (0x80 + u div 64 mod 64)
                      # char_of (0x80 + u mod 64) # bs) = u # utf8_decode bs"
proof -
  obtain q1 a where u: "u = 64 * q1 + a" "a < 64" "u div 64 = q1" "u mod 64 = a"
    using split64 by blast
  obtain q2 b where q1: "q1 = 64 * q2 + b" "b < 64" "q1 div 64 = q2" "q1 mod 64 = b"
    using split64 by blast
  have q: "q2 < 16" using assms u(1,2) q1(1,2) by linarith
  have n: "(of_char (char_of (0xE0 + q2)) :: nat) = 0xE0 + q2" using q by (simp add: oc)
  have lo: "q2 = 0 \<Longrightarrow> 32 \<le> b" using assms u(1,2) q1(1,2) by linarith
  have hi: "q2 = 13 \<Longrightarrow> b < 32" using assms u(1,2) q1(1,2) by linarith
  have c1: "between (if 0xE0 + q2 = 0xE0 then 0xA0 else 0x80) (if 0xE0 + q2 = 0xED then 0x9F else 0xBF)
              (char_of (0x80 + b))"
    using lo hi q1(2) by (auto simp: between_def oc)
  have r: "((0xE0 + q2 - 0xE0) * 64 + b) * 64 + a = u" using u(1) q1(1) by simp
  show ?thesis
    unfolding u(3,4) q1(3,4)
    using q c1 cont_byte [OF u(2)] cont_byte [OF q1(2)] r
    by (simp add: n Let_def)
qed

lemma pair_units:
  assumes "l < 1024"
  shows "(h * 1024 + l) div 1024 = (h::nat)" "(h * 1024 + l) mod 1024 = l"
  using assms by simp_all

lemma dec4:
  assumes "0xD800 \<le> u" "u < 0xDC00" "0xDC00 \<le> v" "v < 0xE000"
    and cp: "cp = 0x10000 + (u - 0xD800) * 1024 + (v - 0xDC00)"
  shows "utf8_decode (char_of (0xF0 + cp div 64 div 64 div 64)
                      # char_of (0x80 + cp div 64 div 64 mod 64)
                      # char_of (0x80 + cp div 64 mod 64)
                      # char_of (0x80 + cp mod 64) # bs) = u # v # utf8_decode bs"
proof -
  obtain q1 a where p: "cp = 64 * q1 + a" "a < 64" "cp div 64 = q1" "cp mod 64 = a"
    using split64 by blast
  obtain q2 b where q1: "q1 = 64 * q2 + b" "b < 64" "q1 div 64 = q2" "q1 mod 64 = b"
    using split64 by blast
  obtain q3 c where q2: "q2 = 64 * q3 + c" "c < 64" "q2 div 64 = q3" "q2 mod 64 = c"
    using split64 by blast
  define h where "h = u - 0xD800"
  define l where "l = v - 0xDC00"
  have hl: "h < 1024" "l < 1024" "u = 0xD800 + h" "v = 0xDC00 + l"
    using assms(1-4) by (simp_all add: h_def l_def)
  have cp': "cp = 0x10000 + (h * 1024 + l)" using cp by (simp add: h_def l_def)
  have rng: "0x10000 \<le> cp" "cp < 0x110000" using cp' hl(1,2) by linarith+
  have q: "q3 < 5" using rng p(1,2) q1(1,2) q2(1,2) by linarith
  have n: "(of_char (char_of (0xF0 + q3)) :: nat) = 0xF0 + q3" using q by (simp add: oc)
  have lo: "q3 = 0 \<Longrightarrow> 16 \<le> c" using rng p(1,2) q1(1,2) q2(1,2) by linarith
  have hi: "q3 = 4 \<Longrightarrow> c < 16" using rng p(1,2) q1(1,2) q2(1,2) by linarith
  have c1: "between (if 0xF0 + q3 = 0xF0 then 0x90 else 0x80) (if 0xF0 + q3 = 0xF4 then 0x8F else 0xBF)
              (char_of (0x80 + c))"
    using lo hi q2(2) by (auto simp: between_def oc)
  have r: "(((0xF0 + q3 - 0xF0) * 64 + c) * 64 + b) * 64 + a = cp"
    using p(1) q1(1) q2(1) by simp
  have un: "0xD800 + (cp - 0x10000) div 1024 = u" "0xDC00 + (cp - 0x10000) mod 1024 = v"
    using hl by (simp_all add: cp' pair_units)
  show ?thesis
    unfolding p(3,4) q1(3,4) q2(3,4)
    using q c1 cont_byte [OF p(2)] cont_byte [OF q1(2)] cont_byte [OF q2(2)] r un
    by (simp add: n Let_def)
qed

lemma utf8_roundtrip: "well_formed us \<Longrightarrow> utf8_decode (utf8_encode us) = us"
proof (induction us rule: well_formed.induct)
  case 1
  show ?case by simp
next
  case (2 u us)
  show ?case
  proof (cases "0xD800 \<le> u \<and> u < 0xDC00")
    case True
    with 2(3) obtain v vs where us: "us = v # vs" and v: "0xDC00 \<le> v" "v < 0xE000"
      and wf: "well_formed vs"
      by (auto split: list.splits)
    have ih: "utf8_decode (utf8_encode vs) = vs"
      using 2(1) [OF True us] v wf by simp
    define cp where "cp = 0x10000 + (u - 0xD800) * 1024 + (v - 0xDC00)"
    have u: "\<not> u < 0x80" "\<not> u < 0x800" using True by simp_all
    have enc: "utf8_encode (u # v # vs) =
        char_of (0xF0 + cp div 64 div 64 div 64) # char_of (0x80 + cp div 64 div 64 mod 64)
        # char_of (0x80 + cp div 64 mod 64) # char_of (0x80 + cp mod 64) # utf8_encode vs"
      using True v u unfolding cp_def by (simp add: Let_def)
    have "utf8_decode (utf8_encode (u # v # vs)) = u # v # utf8_decode (utf8_encode vs)"
      unfolding enc using True v cp_def by (intro dec4) simp_all
    then show ?thesis by (simp only: us ih)
  next
    case False
    with 2(3) have ns: "\<not> (0xDC00 \<le> u \<and> u < 0xE000)" and lt: "u < 0x10000" and wf: "well_formed us"
      by (auto split: if_splits)
    have ih: "utf8_decode (utf8_encode us) = us"
      using 2(2) [OF False ns] wf by simp
    consider "u < 0x80" | "0x80 \<le> u" "u < 0x800" | "0x800 \<le> u" by linarith
    then show ?thesis
    proof cases
      case 1
      then show ?thesis using ih by (simp add: dec1 del: utf8_decode.simps)
    next
      case 2
      then show ?thesis using ih by (simp add: dec2 del: utf8_decode.simps)
    next
      case 3
      then have enc: "utf8_encode (u # us) =
          char_of (0xE0 + u div 64 div 64) # char_of (0x80 + u div 64 mod 64)
          # char_of (0x80 + u mod 64) # utf8_encode us"
        by (simp add: False ns)
      have nsur: "\<not> (0xD800 \<le> u \<and> u < 0xE000)" using False ns by linarith
      show ?thesis by (simp only: enc dec3 [OF 3 lt nsur] ih)
    qed
  qed
qed



lemma length_utf8_encode: "length us \<le> length (utf8_encode us)"
proof (induction "length us" arbitrary: us rule: less_induct)
  case less
  show ?case
  proof (cases us)
    case Nil
    then show ?thesis by simp
  next
    case (Cons u us')
    have ih1: "length us' \<le> length (utf8_encode us')" using less Cons by simp
    show ?thesis
    proof (cases us')
      case Nil
      then show ?thesis using Cons by (simp add: replacement_def)
    next
      case c2: (Cons v vs)
      have ih2: "length vs \<le> length (utf8_encode vs)" using less Cons c2 by simp
      show ?thesis
        unfolding Cons c2 utf8_encode.simps(2) [of u "v # vs"]
        using ih1 [unfolded c2] ih2
        by (simp add: replacement_def Let_def del: utf8_encode.simps)
    qed
  qed
qed

section \<open>Facts about the ciphers\<close>

lemma shift_back: "char_of ((of_char c + k) mod 256 + 256 - k) = c" if "k < 256" for k :: nat
proof -
  have "((of_char c + k) mod 256 + 256 - k) mod 256 = (of_char c :: nat) mod 256"
  proof -
    have "((of_char c + k) mod 256 + 256 - k) = ((of_char c + k) mod 256 + (256 - k))"
      using that by simp
    also have "\<dots> mod 256 = ((of_char c + k) + (256 - k)) mod 256"
      by (simp add: mod_add_left_eq)
    also have "(of_char c + k) + (256 - k) = of_char c + 256" using that by simp
    finally show ?thesis by simp
  qed
  then show ?thesis
    by (simp add: char_of_eq_iff take_bit_eq_mod)
qed

lemma shift_cipher_correct: "cipher_correct shift_cipher"
  unfolding cipher_correct_def shift_cipher_def shift_seal_def shift_unseal_def
  by (simp add: shift_back key_shift_def o_def)

lemma shift_cipher_length: "length_preserving shift_cipher"
  by (simp add: length_preserving_def shift_cipher_def shift_seal_def)

lemma even_length_hex_encode: "even (length (hex_encode bs))"
  by (simp add: length_hex_encode)

lemma hex_encode_eq_Nil: "hex_encode bs = [] \<longleftrightarrow> bs = []"
  by (cases bs) auto

lemma length_randomBytes: "length (fst (randomBytes n g)) = n"
  by (simp add: randomBytes_def)

lemma key_bytes_nonempty: "fst (randomBytes KEY_LENGTH g) \<noteq> []"
proof
  assume "fst (randomBytes KEY_LENGTH g) = []"
  then have "length (fst (randomBytes KEY_LENGTH g)) = 0" by simp
  then show False by (simp only: length_randomBytes KEY_LENGTH_def)
qed

lemma snd_randomBytes: "snd (randomBytes n g) = (\<lambda>i. g (i + n))"
  by (simp add: randomBytes_def)

lemma generateKey_eq:
  "generateKey g = (hex_encode (fst (randomBytes KEY_LENGTH g)), \<lambda>i. g (i + KEY_LENGTH))"
  by (simp add: generateKey_def case_prod_beta snd_randomBytes)

lemma encrypt_with_key:
  "k \<noteq> [] \<Longrightarrow> encrypt cph sk P (Some k) g =
     (\<lparr>content = Some (hex_encode (fst (seal cph (hex_decode k) AAD (utf8_encode P)))),
       encryptionKey = Some k,
       iv = Some (hex_encode (fst (randomBytes IV_LENGTH g))),
       tag = Some (hex_encode (snd (seal cph (hex_decode k) AAD (utf8_encode P))))\<rparr>,
      \<lambda>i. g (i + IV_LENGTH))"
  by (simp add: encrypt_def case_prod_beta Let_def snd_randomBytes)

lemma encryptE2E_eq:
  "encryptE2E cph sk P g =
     (\<lparr>content = Some (hex_encode (fst (seal cph (fst (randomBytes KEY_LENGTH g)) AAD (utf8_encode P)))),
       encryptionKey = Some (hex_encode (fst (randomBytes KEY_LENGTH g))),
       iv = Some (hex_encode (fst (randomBytes IV_LENGTH (\<lambda>i. g (i + KEY_LENGTH))))),
       tag = Some (hex_encode (snd (seal cph (fst (randomBytes KEY_LENGTH g)) AAD (utf8_encode P))))\<rparr>,
      \<lambda>i. g (i + (KEY_LENGTH + IV_LENGTH)))"
  by (simp add: encryptE2E_def generateKey_eq encrypt_with_key hex_encode_eq_Nil
      key_bytes_nonempty hex_decode_encode add.assoc add.commute [of IV_LENGTH KEY_LENGTH])


lemma randomBytes_neq:
  assumes "g 0 \<noteq> g' 0" "0 < n"
  shows "fst (randomBytes n g) \<noteq> fst (randomBytes n g')"
proof
  assume "fst (randomBytes n g) = fst (randomBytes n g')"
  then have "map g [0..<n] = map g' [0..<n]" by (simp only: randomBytes_def fst_conv)
  then have "map g [0..<n] ! 0 = map g' [0..<n] ! 0" by (rule arg_cong)
  with assms(2) have "g 0 = g' 0" by simp
  with assms(1) show False by simp
qed

lemma demo_rng_differs: "demo_rng 0 \<noteq> demo_rng (0 + 48)"
  by (simp add: demo_rng_def char_of_eq_iff)

text \<open>What \<open>decrypt\<close> returns for what \<open>encryptE2E\<close> made.\<close>

lemma decrypt_encryptE2E:
  assumes "cipher_correct cph"
  shows "decrypt cph (fst (encryptE2E cph sk P g)) = Inr (utf8_decode (utf8_encode P))"
  using assms
  by (simp add: encryptE2E_eq decrypt_def hex_decode_encode cipher_correct_def
      even_length_hex_encode)

section \<open>What \<open>decrypt\<close> accepts (C2)\<close>

text \<open>
  The outcomes of \<open>decrypt\<close>. A missing field and a content of odd length
  raise a \<open>TypeError\<close>; otherwise the outcome is that of the cipher on the
  decoded key, tag and content: its refusal is raised as an \<open>Error\<close>, and
  its bytes are returned decoded from UTF-8. The initialization vector does not
  take part.
\<close>

lemma decrypt_failures:
  "(content e = None \<or> encryptionKey e = None \<or> iv e = None \<or> tag e = None
      \<longrightarrow> (\<exists>m. decrypt cph e = Inl (TypeError m)))
   \<and> (\<forall>c k i t. content e = Some c \<and> encryptionKey e = Some k \<and> iv e = Some i \<and> tag e = Some t
      \<longrightarrow> (odd (length c) \<longrightarrow> (\<exists>m. decrypt cph e = Inl (TypeError m)))
        \<and> (even (length c) \<longrightarrow> decrypt cph e =
            (case unseal cph (hex_decode k) AAD (hex_decode t) (hex_decode c) of
               None \<Rightarrow> Inl (Error ''Unsupported state or unable to authenticate data'')
             | Some p \<Rightarrow> Inr (utf8_decode p))))"
  by (auto simp: decrypt_def split: option.splits)


text \<open>
  For a correct cipher, content and tag made under key bytes of any length
  decrypt under the text of those bytes, whatever the \<open>iv\<close> field holds.
\<close>

lemma decrypt_ignores_iv_and_key_length:
  "cipher_correct cph \<Longrightarrow>
     decrypt cph \<lparr>content = Some (hex_encode (fst (seal cph kb AAD (utf8_encode P)))),
                  encryptionKey = Some (hex_encode kb), iv = Some i,
                  tag = Some (hex_encode (snd (seal cph kb AAD (utf8_encode P))))\<rparr>
       = Inr (utf8_decode (utf8_encode P))"
  by (simp add: decrypt_def hex_decode_encode even_length_hex_encode cipher_correct_def)


section \<open>Round trip and fresh keys (C3)\<close>

text \<open>
  C3, amended. For a correct cipher, \<open>decrypt\<close> of what \<open>encryptE2E\<close> made
  of a plaintext \<open>P\<close> is \<open>P\<close> when \<open>P\<close> is well-formed UTF-16 (every
  surrogate is part of a pair); in general it is \<open>P\<close> encoded to UTF-8 and
  decoded again. Every call draws \<open>KEY_LENGTH\<close> random bytes for the key and
  \<open>IV_LENGTH\<close> more, and the envelope holds the text of that key and the
  ciphertext of the UTF-8 bytes of \<open>P\<close> under it: two calls whose draws
  differ give envelopes with different keys. Nothing is said of the ciphertexts
  of two calls.
\<close>

theorem encryptE2E_roundtrip:
  "(cipher_correct cph \<and> well_formed P \<longrightarrow> decrypt cph (fst (encryptE2E cph sk P g)) = Inr P)
   \<and> (cipher_correct cph \<longrightarrow>
         decrypt cph (fst (encryptE2E cph sk P g)) = Inr (utf8_decode (utf8_encode P)))
   \<and> encryptionKey (fst (encryptE2E cph sk P g)) = Some (hex_encode (fst (randomBytes KEY_LENGTH g)))
   \<and> content (fst (encryptE2E cph sk P g))
       = Some (hex_encode (fst (seal cph (fst (randomBytes KEY_LENGTH g)) AAD (utf8_encode P))))
   \<and> snd (encryptE2E cph sk P g) = (\<lambda>i. g (i + (KEY_LENGTH + IV_LENGTH)))
   \<and> (fst (randomBytes KEY_LENGTH g) \<noteq> fst (randomBytes KEY_LENGTH g')
        \<longrightarrow> encryptionKey (fst (encryptE2E cph sk P g)) \<noteq> encryptionKey (fst (encryptE2E cph sk P g')))"
  by (simp add: decrypt_encryptE2E utf8_roundtrip) (simp add: encryptE2E_eq hex_encode_inject)

lemma well_formed_status: "well_formed (js_text ''status?'')"
  by (simp add: js_text_def)

text \<open>Witness for C3: the round trip of \<open>status?\<close>, and the keys of two calls.\<close>

theorem encryptE2E_roundtrip_witness:
  "decrypt shift_cipher (fst (encryptE2E shift_cipher demo_static_key (js_text ''status?'') demo_rng))
     = Inr (js_text ''status?'')
   \<and> encryptionKey (fst (encryptE2E shift_cipher demo_static_key (js_text ''status?'') demo_rng))
      \<noteq> encryptionKey (fst (encryptE2E shift_cipher demo_static_key (js_text ''status?'')
                              (\<lambda>i. demo_rng (i + 48))))"
proof -
  have "fst (randomBytes KEY_LENGTH demo_rng)
      \<noteq> fst (randomBytes KEY_LENGTH (\<lambda>i. demo_rng (i + 48)))"
    by (rule randomBytes_neq) (simp_all add: demo_rng_differs [simplified] KEY_LENGTH_def)
  then show ?thesis
    using encryptE2E_roundtrip [of shift_cipher "js_text ''status?''" demo_static_key demo_rng
        "\<lambda>i. demo_rng (i + 48)"]
      shift_cipher_correct well_formed_status
    by blast
qed

lemma lone_surrogate: "utf8_decode (utf8_encode [0xD800]) = [0xFFFD]"
  by (simp add: replacement_def between_def low6_def)

text \<open>
  Counterexample to C3 as stated. The plaintext made of the lone surrogate
  \<open>U+D800\<close> comes back as \<open>U+FFFD\<close>. Two consecutive calls on the empty
  plaintext give different keys and the same (empty) ciphertext.
\<close>

theorem encryptE2E_counterexample:
  "\<not> well_formed [0xD800]
   \<and> decrypt shift_cipher (fst (encryptE2E shift_cipher demo_static_key [0xD800] demo_rng))
       = Inr [0xFFFD]
   \<and> encryptionKey (fst (encryptE2E shift_cipher demo_static_key [] demo_rng))
       \<noteq> encryptionKey (fst (encryptE2E shift_cipher demo_static_key []
                              (snd (encryptE2E shift_cipher demo_static_key [] demo_rng))))
   \<and> content (fst (encryptE2E shift_cipher demo_static_key [] demo_rng))
       = content (fst (encryptE2E shift_cipher demo_static_key []
                              (snd (encryptE2E shift_cipher demo_static_key [] demo_rng))))"
proof -
  have "fst (randomBytes KEY_LENGTH demo_rng)
      \<noteq> fst (randomBytes KEY_LENGTH (\<lambda>i. demo_rng (i + (KEY_LENGTH + IV_LENGTH))))"
    by (rule randomBytes_neq) (simp_all add: demo_rng_differs [simplified] KEY_LENGTH_def IV_LENGTH_def)
  then have keys: "encryptionKey (fst (encryptE2E shift_cipher demo_static_key [] demo_rng))
       \<noteq> encryptionKey (fst (encryptE2E shift_cipher demo_static_key []
                              (snd (encryptE2E shift_cipher demo_static_key [] demo_rng))))
   \<and> content (fst (encryptE2E shift_cipher demo_static_key [] demo_rng))
       = content (fst (encryptE2E shift_cipher demo_static_key []
                              (snd (encryptE2E shift_cipher demo_static_key [] demo_rng))))"
    by (simp add: encryptE2E_eq hex_encode_inject shift_cipher_def shift_seal_def)
  have rt: "decrypt shift_cipher (fst (encryptE2E shift_cipher demo_static_key [0xD800] demo_rng))
       = Inr [0xFFFD]"
    by (simp only: decrypt_encryptE2E [OF shift_cipher_correct] lone_surrogate)
  have "\<not> well_formed [0xD800]" by simp
  with rt keys show ?thesis by blast
qed

section \<open>Facts about the store and the handlers\<close>

lemma single_Nil [simp]: "single [] = None"
  by (simp add: single_def)

lemma single_Some_mem: "single xs = Some x \<Longrightarrow> x \<in> set xs"
  by (auto simp: single_def split: list.splits)

lemma isTeamMember_row:
  "isTeamMember fl d u t \<Longrightarrow> \<exists>m\<in>set (team_members d). m_user_id m = u \<and> m_team_id m = t"
proof -
  assume "isTeamMember fl d u t"
  then obtain m where "single (member_rows d u t) = Some m"
    by (auto simp: isTeamMember_def)
  then have "m \<in> set (member_rows d u t)" by (rule single_Some_mem)
  then show ?thesis by (auto simp: member_rows_def)
qed

lemma offline_loop_undefined: "offline_loop None fl userId ms d = (d, [])"
  by (cases ms) simp_all

text \<open>
  With a client in place of the undefined property the loop would reach every
  team of the user: one \<open>user:status_update\<close> per membership row, in order.
\<close>

lemma offline_loop_with_client:
  "filter is_status_broadcast (snd (offline_loop (Some c) fl userId ms d))
     = map (\<lambda>m. Emit (To (team_room (m_team_id m)))
                    (User_status_update userId ''offline'' (m_team_id m))) ms"
proof (induction ms arbitrary: d)
  case Nil
  show ?case by simp
next
  case (Cons m ms)
  then show ?case by (simp add: case_prod_beta Let_def)
qed

lemma updateUserOfflineStatus_with_client:
  "\<not> fl (Select_user_teams userId) \<Longrightarrow>
     filter is_status_broadcast (snd (updateUserOfflineStatus (Some c) fl userId d))
       = map (\<lambda>m. Emit (To (team_room (m_team_id m)))
                      (User_status_update userId ''offline'' (m_team_id m)))
             (filter (\<lambda>m. m_user_id m = userId) (team_members d))"
  by (simp add: updateUserOfflineStatus_def getUserTeams_def offline_loop_with_client)

lemma createNotification_team_members:
  "createNotification fl n d = Inr d' \<Longrightarrow> team_members d' = team_members d"
  by (auto simp: createNotification_def split: if_splits)

lemma notify_status_quiet:
  "notify_status fl cu uid userName st ms d = (d', es, r) \<Longrightarrow>
     team_members d' = team_members d \<and> (\<forall>e\<in>set es. \<not> is_status_broadcast e)"
proof (induction fl cu uid userName st ms d arbitrary: d' es r rule: notify_status.induct)
  case (1 fl cu uid userName st d)
  then show ?case by simp
next
  case (2 fl cu uid userName st member rest d)
  show ?case
  proof (cases "m_user_id (fst member) \<noteq> uid")
    case False
    with 2 show ?thesis by simp
  next
    case True
    show ?thesis
    proof (cases "createNotification fl (status_notification (m_user_id (fst member)) userName st) d")
      case (Inl e)
      with True 2(3) show ?thesis by simp
    next
      case (Inr d1)
      obtain d2 es2 r2 where rec: "notify_status fl cu uid userName st rest d1 = (d2, es2, r2)"
        by (cases "notify_status fl cu uid userName st rest d1") auto
      from 2(1) [OF True Inr refl rec]
      have ih: "team_members d2 = team_members d1 \<and> (\<forall>e\<in>set es2. \<not> is_status_broadcast e)"
        by simp
      from Inr have "team_members d1 = team_members d"
        by (rule createNotification_team_members)
      with True Inr rec ih 2(3) show ?thesis
        by (auto split: option.splits if_splits)
    qed
  qed
qed

lemma createNotifications_frame:
  "createNotifications fl ns d = (d', r) \<Longrightarrow>
     messages d' = messages d \<and> team_members d' = team_members d"
proof (induction ns arbitrary: d)
  case Nil
  then show ?case by simp
next
  case (Cons n ns)
  then show ?case
    by (auto simp: createNotification_def split: if_splits)
qed

lemma createNotifications_all:
  "createNotifications fl ns d = (d', None) \<Longrightarrow> notifications d' = notifications d @ ns"
proof (induction ns arbitrary: d)
  case Nil
  then show ?case by simp
next
  case (Cons n ns)
  then show ?case
    by (auto simp: createNotification_def split: if_splits)
qed

lemma createNotifications_prefix:
  "createNotifications fl ns d = (d', r) \<Longrightarrow> \<exists>k. notifications d' = notifications d @ take k ns"
proof (induction ns arbitrary: d)
  case Nil
  then show ?case by simp
next
  case (Cons n ns)
  show ?case
  proof (cases "fl (Insert_notification (n_user_id n))")
    case True
    with Cons.prems have "d' = d" by (simp add: createNotification_def)
    then have "notifications d' = notifications d @ take 0 (n # ns)" by simp
    then show ?thesis by blast
  next
    case False
    with Cons.prems
    have "createNotifications fl ns (d\<lparr>notifications := notifications d @ [n]\<rparr>) = (d', r)"
      by (simp add: createNotification_def)
    from Cons.IH [OF this] obtain k where
      "notifications d' = (notifications d @ [n]) @ take k ns" by auto
    then have "notifications d' = notifications d @ take (Suc k) (n # ns)" by simp
    then show ?thesis by blast
  qed
qed

lemma createNotifications_ok:
  "\<forall>n\<in>set ns. \<not> fl (Insert_notification (n_user_id n)) \<Longrightarrow>
     snd (createNotifications fl ns d) = None"
  by (induction ns arbitrary: d) (auto simp: createNotification_def)

lemma promise_all_map_fst:
  "promise_all (map (\<lambda>m. case f m of Inl e \<Rightarrow> Inl e | Inr u \<Rightarrow> Inr (m, u)) rows) = Inr tms
     \<Longrightarrow> map fst tms = rows"
proof (induction rows arbitrary: tms)
  case Nil
  then show ?case by simp
next
  case (Cons m rows)
  then show ?case by (auto split: sum.splits)
qed

lemma getTeamMembers_rows:
  assumes "getTeamMembers fl d t = Inr tms"
  shows "map fst tms = filter (\<lambda>m. m_team_id m = t) (team_members d)"
proof -
  from assms have "promise_all
      (map (\<lambda>member. case getUserById fl d (m_user_id member) of
                        Inl e \<Rightarrow> Inl e | Inr user \<Rightarrow> Inr (member, user))
           (filter (\<lambda>m. m_team_id m = t) (team_members d))) = Inr tms"
    by (simp add: getTeamMembers_def split: if_splits)
  then show ?thesis by (rule promise_all_map_fst)
qed

lemma getUserById_messages [simp]:
  "getUserById fl (d\<lparr>messages := ms\<rparr>) u = getUserById fl d u"
  by (simp add: getUserById_def split: option.splits)

lemma getTeamMembers_messages [simp]:
  "getTeamMembers fl (d\<lparr>messages := ms\<rparr>) t = getTeamMembers fl d t"
  by (simp add: getTeamMembers_def)

lemma failure_status [simp]: "res_status (failure code e m) = code"
  by (simp add: failure_def)

text \<open>The path of \<open>sendMessage\<close> for an encrypted message of a member, once the row is stored.\<close>

lemma sendMessage_encrypted_eq:
  assumes enc: "req_is_encrypted req \<noteq> Some False"
    and mem: "isTeamMember fl d uid (req_team_id req)"
    and ins: "\<not> fl Insert_message"
    and e: "encryptE2E cph sk (req_content req) g = (env, g1)"
    and row: "row = \<lparr>msg_id = new_id, msg_team_id = req_team_id req,
                     msg_mission_id = (case req_mission_id req of None \<Rightarrow> None
                                       | Some m \<Rightarrow> if m = [] then None else Some m),
                     msg_sender_id = uid, msg_content = JSON_stringify env,
                     msg_is_encrypted = True\<rparr>"
    and cn: "\<And>sender tms. createNotifications fl
               (map (message_notification sender) (filter (\<lambda>member. m_user_id (fst member) \<noteq> uid) tms))
               (d\<lparr>messages := messages d @ [row]\<rparr>) = (d2 sender tms, r sender tms)"
  shows "sendMessage cph sk fl ws new_id (Some uid) req d g =
     (case getUserById fl d uid of
        Inl x \<Rightarrow> (failure 500 ''Failed to send message'' (Some (exn_message x)),
                  d\<lparr>messages := messages d @ [row]\<rparr>, g1, [])
      | Inr sender \<Rightarrow>
          (case getTeamMembers fl d (req_team_id req) of
             Inl x \<Rightarrow> (failure 500 ''Failed to send message'' (Some (exn_message x)),
                       d\<lparr>messages := messages d @ [row]\<rparr>, g1, [])
           | Inr tms \<Rightarrow>
               (case r sender tms of
                  Some x \<Rightarrow> (failure 500 ''Failed to send message'' (Some (exn_message x)),
                             d2 sender tms, g1, [])
                | None \<Rightarrow>
                    (\<lparr>res_status = 201, res_success = True, res_error = None,
                      res_message = Some ''Message sent successfully'',
                      res_data = Some \<lparr>sd_message = \<lparr>mws_message = row, mws_sender = sender\<rparr>,
                                        sd_encryptionKey =
                                          (case encryptionKey env of None \<Rightarrow> None
                                           | Some k \<Rightarrow> if k = [] then None else Some k)\<rparr>\<rparr>,
                     d2 sender tms, g1,
                     if ws then [Emit (To (team_room (req_team_id req)))
                                   (Message_new \<lparr>mws_message = row, mws_sender = sender\<rparr> (req_team_id req))]
                     else []))))"
proof -
  have enc': "(case req_is_encrypted req of None \<Rightarrow> True | Some b \<Rightarrow> b)"
    using enc by (cases "req_is_encrypted req") auto
  show ?thesis
  proof (cases "getUserById fl d uid")
    case (Inl x)
    then show ?thesis
      using mem ins enc' unfolding row
      by (simp add: sendMessage_def Let_def e)
  next
    case u: (Inr sender)
    show ?thesis
    proof (cases "getTeamMembers fl d (req_team_id req)")
      case (Inl x)
      then show ?thesis
        using mem ins enc' u unfolding row
        by (simp add: sendMessage_def Let_def e)
    next
      case t: (Inr tms)
      show ?thesis
      proof (cases "r sender tms")
        case None
        then show ?thesis
          using mem ins enc' u t cn [of sender tms] unfolding row
          by (simp add: sendMessage_def Let_def e)
      next
        case (Some x)
        then show ?thesis
          using mem ins enc' u t cn [of sender tms] unfolding row
          by (simp add: sendMessage_def Let_def e)
      qed
    qed
  qed
qed

lemma sendMessage_refused:
  assumes "\<not> isTeamMember fl d uid (req_team_id req) \<or> fl Insert_message"
  shows "res_status (fst (sendMessage cph sk fl ws new_id (Some uid) req d g)) \<noteq> 201"
  using assms
  by (auto simp: sendMessage_def Let_def case_prod_beta)

lemma sendMessage_outcome:
  assumes enc: "req_is_encrypted req \<noteq> Some False"
    and mem: "isTeamMember fl d uid (req_team_id req)"
    and ins: "\<not> fl Insert_message"
    and run: "sendMessage cph sk fl ws new_id (Some uid) req d g = (res, d', g', effs)"
    and row: "row = \<lparr>msg_id = new_id, msg_team_id = req_team_id req,
                     msg_mission_id = (case req_mission_id req of None \<Rightarrow> None
                                       | Some m \<Rightarrow> if m = [] then None else Some m),
                     msg_sender_id = uid,
                     msg_content = JSON_stringify (fst (encryptE2E cph sk (req_content req) g)),
                     msg_is_encrypted = True\<rparr>"
  shows "messages d' = messages d @ [row]"
    and "\<exists>k. map n_user_id (drop (length (notifications d)) (notifications d'))
           = take k (filter (\<lambda>u. u \<noteq> uid)
               (map m_user_id (filter (\<lambda>m. m_team_id m = req_team_id req) (team_members d))))
         \<and> take (length (notifications d)) (notifications d') = notifications d
         \<and> (\<forall>n\<in>set (drop (length (notifications d)) (notifications d')). n_type n = ''message'')"
    and "res_status res = 201 \<Longrightarrow>
      \<exists>sender tms.
        getUserById fl d uid = Inr sender \<and> getTeamMembers fl d (req_team_id req) = Inr tms
        \<and> res_data res = Some \<lparr>sd_message = \<lparr>mws_message = row, mws_sender = sender\<rparr>,
                                sd_encryptionKey = Some (hex_encode (fst (randomBytes KEY_LENGTH g)))\<rparr>
        \<and> effs = (if ws then [Emit (To (team_room (req_team_id req)))
                                (Message_new \<lparr>mws_message = row, mws_sender = sender\<rparr> (req_team_id req))]
                   else [])
        \<and> notifications d' = notifications d @
             map (message_notification sender) (filter (\<lambda>member. m_user_id (fst member) \<noteq> uid) tms)"
proof -
  let ?env = "fst (encryptE2E cph sk (req_content req) g)"
  let ?g1 = "snd (encryptE2E cph sk (req_content req) g)"
  let ?d1 = "d\<lparr>messages := messages d @ [row]\<rparr>"
  let ?ns = "\<lambda>sender tms. map (message_notification sender)
                 (filter (\<lambda>member. m_user_id (fst member) \<noteq> uid) tms)"
  let ?d2 = "\<lambda>sender tms. fst (createNotifications fl (?ns sender tms) ?d1)"
  let ?r = "\<lambda>sender tms. snd (createNotifications fl (?ns sender tms) ?d1)"
  have key: "(case encryptionKey ?env of None \<Rightarrow> None | Some k \<Rightarrow> if k = [] then None else Some k)
      = Some (hex_encode (fst (randomBytes KEY_LENGTH g)))"
    by (simp add: encryptE2E_eq hex_encode_eq_Nil key_bytes_nonempty)
  have frame: "messages (?d2 sender tms) = messages ?d1" for sender tms
    using createNotifications_frame [of fl "?ns sender tms" ?d1 "?d2 sender tms" "?r sender tms"]
    by simp
  have eq: "(res, d', g', effs) =
     (case getUserById fl d uid of
        Inl x \<Rightarrow> (failure 500 ''Failed to send message'' (Some (exn_message x)), ?d1, ?g1, [])
      | Inr sender \<Rightarrow>
          (case getTeamMembers fl d (req_team_id req) of
             Inl x \<Rightarrow> (failure 500 ''Failed to send message'' (Some (exn_message x)), ?d1, ?g1, [])
           | Inr tms \<Rightarrow>
               (case ?r sender tms of
                  Some x \<Rightarrow> (failure 500 ''Failed to send message'' (Some (exn_message x)),
                             ?d2 sender tms, ?g1, [])
                | None \<Rightarrow>
                    (\<lparr>res_status = 201, res_success = True, res_error = None,
                      res_message = Some ''Message sent successfully'',
                      res_data = Some \<lparr>sd_message = \<lparr>mws_message = row, mws_sender = sender\<rparr>,
                                        sd_encryptionKey =
                                          (case encryptionKey ?env of None \<Rightarrow> None
                                           | Some k \<Rightarrow> if k = [] then None else Some k)\<rparr>\<rparr>,
                     ?d2 sender tms, ?g1,
                     if ws then [Emit (To (team_room (req_team_id req)))
                                   (Message_new \<lparr>mws_message = row, mws_sender = sender\<rparr> (req_team_id req))]
                     else []))))"
    unfolding run [symmetric]
    by (rule sendMessage_encrypted_eq [OF enc mem ins _ row]) simp_all
  show "messages d' = messages d @ [row]"
    using eq frame by (auto split: sum.splits option.splits)
  let ?others = "filter (\<lambda>u. u \<noteq> uid)
      (map m_user_id (filter (\<lambda>m. m_team_id m = req_team_id req) (team_members d)))"
  have none: "map n_user_id (drop (length (notifications d)) (notifications ?d1)) = take 0 ?others
      \<and> take (length (notifications d)) (notifications ?d1) = notifications d
      \<and> (\<forall>n\<in>set (drop (length (notifications d)) (notifications ?d1)). n_type n = ''message'')"
    by simp
  have some: "\<exists>k. map n_user_id (drop (length (notifications d)) (notifications (?d2 sender tms)))
           = take k ?others
         \<and> take (length (notifications d)) (notifications (?d2 sender tms)) = notifications d
         \<and> (\<forall>n\<in>set (drop (length (notifications d)) (notifications (?d2 sender tms))).
               n_type n = ''message'')"
    if t: "getTeamMembers fl d (req_team_id req) = Inr tms" for sender tms
  proof -
    have "createNotifications fl (?ns sender tms) ?d1 = (?d2 sender tms, ?r sender tms)" by simp
    from createNotifications_prefix [OF this] obtain k where
      k: "notifications (?d2 sender tms) = notifications d @ take k (?ns sender tms)" by auto
    have "map n_user_id (?ns sender tms) = filter (\<lambda>u. u \<noteq> uid) (map m_user_id (map fst tms))"
      by (simp add: message_notification_def filter_map o_def)
    also have "map fst tms = filter (\<lambda>m. m_team_id m = req_team_id req) (team_members d)"
      using t by (rule getTeamMembers_rows)
    finally have users: "map n_user_id (?ns sender tms) = ?others" .
    have "map n_user_id (take k (?ns sender tms)) = take k ?others"
      using users by (simp only: take_map [symmetric])
    moreover have "\<forall>n\<in>set (take k (?ns sender tms)). n_type n = ''message''"
    proof
      fix n assume "n \<in> set (take k (?ns sender tms))"
      then have "n \<in> set (?ns sender tms)" by (rule in_set_takeD)
      then show "n_type n = ''message''" by (auto simp: message_notification_def)
    qed
    ultimately show ?thesis unfolding k by (intro exI [of _ k]) simp
  qed
  show "\<exists>k. map n_user_id (drop (length (notifications d)) (notifications d')) = take k ?others
         \<and> take (length (notifications d)) (notifications d') = notifications d
         \<and> (\<forall>n\<in>set (drop (length (notifications d)) (notifications d')). n_type n = ''message'')"
  proof (cases "getUserById fl d uid")
    case (Inl x)
    with eq have "d' = ?d1" by simp
    with none show ?thesis by blast
  next
    case u: (Inr sender)
    show ?thesis
    proof (cases "getTeamMembers fl d (req_team_id req)")
      case (Inl x)
      with eq u have "d' = ?d1" by simp
      with none show ?thesis by blast
    next
      case t: (Inr tms)
      with eq u have "d' = ?d2 sender tms" by (auto split: option.splits)
      with some [OF t] show ?thesis by blast
    qed
  qed
  assume ok: "res_status res = 201"
  from eq ok obtain sender where u: "getUserById fl d uid = Inr sender"
    by (cases "getUserById fl d uid") auto
  from eq ok u obtain tms where t: "getTeamMembers fl d (req_team_id req) = Inr tms"
    by (cases "getTeamMembers fl d (req_team_id req)") auto
  from eq ok u t have r: "?r sender tms = None"
    by (cases "?r sender tms") auto
  then have "createNotifications fl (?ns sender tms) ?d1 = (?d2 sender tms, None)"
    by (metis prod.collapse)
  then have n: "notifications (?d2 sender tms) = notifications ?d1 @ ?ns sender tms"
    by (rule createNotifications_all)
  from eq u t r n key
  show "\<exists>sender tms.
        getUserById fl d uid = Inr sender \<and> getTeamMembers fl d (req_team_id req) = Inr tms
        \<and> res_data res = Some \<lparr>sd_message = \<lparr>mws_message = row, mws_sender = sender\<rparr>,
                                sd_encryptionKey = Some (hex_encode (fst (randomBytes KEY_LENGTH g)))\<rparr>
        \<and> effs = (if ws then [Emit (To (team_room (req_team_id req)))
                                (Message_new \<lparr>mws_message = row, mws_sender = sender\<rparr> (req_team_id req))]
                   else [])
        \<and> notifications d' = notifications d @
             map (message_notification sender) (filter (\<lambda>member. m_user_id (fst member) \<noteq> uid) tms)"
    by simp
qed

text \<open>The stored text of an encrypted message, and what a reader recovers from it.\<close>

lemma envelope_text_E2E:
  "envelope_text (fst (encryptE2E cph sk P g)) =
     ''{'' @ json_quote ''content'' @ '':''
       @ json_quote (hex_encode (fst (seal cph (fst (randomBytes KEY_LENGTH g)) AAD (utf8_encode P))))
     @ '','' @ json_quote ''encryptionKey'' @ '':'' @ json_quote (hex_encode (fst (randomBytes KEY_LENGTH g)))
     @ '','' @ json_quote ''iv'' @ '':'' @ json_quote (hex_encode (fst (randomBytes IV_LENGTH (\<lambda>i. g (i + KEY_LENGTH)))))
     @ '','' @ json_quote ''tag'' @ '':''
       @ json_quote (hex_encode (snd (seal cph (fst (randomBytes KEY_LENGTH g)) AAD (utf8_encode P))))
     @ ''}''"
  by (simp add: encryptE2E_eq envelope_text_def json_member_def)

lemma length_json_quote: "length s < length (json_quote s)"
proof -
  have "length s \<le> length (concat (map json_escape s))"
    by (induction s) (auto simp: json_escape_def)
  then show ?thesis by (simp add: json_quote_def)
qed

lemma stored_text_longer:
  assumes "length_preserving cph"
  shows "length P < length (JSON_stringify (fst (encryptE2E cph sk P g)))"
proof -
  let ?ct = "fst (seal cph (fst (randomBytes KEY_LENGTH g)) AAD (utf8_encode P))"
  have "length ?ct = length (utf8_encode P)"
    using assms by (simp add: length_preserving_def)
  then have "length P \<le> length (hex_encode ?ct)"
    using length_utf8_encode [of P] by (simp add: length_hex_encode)
  also have "\<dots> < length (json_quote (hex_encode ?ct))"
    by (rule length_json_quote)
  also have "\<dots> \<le> length (envelope_text (fst (encryptE2E cph sk P g)))"
    by (simp only: envelope_text_E2E length_append)
  finally show ?thesis by (simp add: JSON_stringify_def js_text_def)
qed

lemma JSON_parse_E2E:
  "JSON_parse (JSON_stringify (fst (encryptE2E cph sk P g))) = Some (fst (encryptE2E cph sk P g))"
  by (simp add: encryptE2E_eq JSON_parse_stringify plain_hex_encode)

lemma demo_key:
  "hex_encode (fst (randomBytes KEY_LENGTH demo_rng))
     = ''000102030405060708090a0b0c0d0e0f101112131415161718191a1b1c1d1e1f''"
  by (simp add: randomBytes_def KEY_LENGTH_def demo_rng_def hex_digit_def upt_conv_Cons)

lemma sendMessage_succeeds:
  assumes enc: "req_is_encrypted req \<noteq> Some False"
    and mem: "isTeamMember fl d uid (req_team_id req)"
    and ins: "\<not> fl Insert_message"
    and u: "getUserById fl d uid = Inr sender"
    and t: "getTeamMembers fl d (req_team_id req) = Inr tms"
    and n: "\<forall>m\<in>set tms. \<not> fl (Insert_notification (m_user_id (fst m)))"
  shows "res_status (fst (sendMessage cph sk fl ws new_id (Some uid) req d g)) = 201"
proof -
  define row where "row = \<lparr>msg_id = new_id, msg_team_id = req_team_id req,
                     msg_mission_id = (case req_mission_id req of None \<Rightarrow> None
                                       | Some m \<Rightarrow> if m = [] then None else Some m),
                     msg_sender_id = uid,
                     msg_content = JSON_stringify (fst (encryptE2E cph sk (req_content req) g)),
                     msg_is_encrypted = True\<rparr>"
  let ?d1 = "d\<lparr>messages := messages d @ [row]\<rparr>"
  let ?ns = "\<lambda>sender tms. map (message_notification sender)
                 (filter (\<lambda>member. m_user_id (fst member) \<noteq> uid) tms)"
  have "snd (createNotifications fl (?ns sender tms) ?d1) = None"
    using n by (intro createNotifications_ok) (auto simp: message_notification_def)
  then show ?thesis
    using u t
    by (simp add: sendMessage_encrypted_eq [OF enc mem ins _ row_def,
          where ?d2.0 = "\<lambda>sender tms. fst (createNotifications fl (?ns sender tms) ?d1)"
            and r = "\<lambda>sender tms. snd (createNotifications fl (?ns sender tms) ?d1)"
            and ?g1.0 = "snd (encryptE2E cph sk (req_content req) g)"])
qed

lemma demo_send_ok:
  "res_status (fst (sendMessage shift_cipher demo_static_key no_faults True ''m1'' (Some ''A'')
      demo_request demo_db demo_rng)) = 201"
proof (rule sendMessage_succeeds)
  show "req_is_encrypted demo_request \<noteq> Some False" by (simp add: demo_request_def)
  show "isTeamMember no_faults demo_db ''A'' (req_team_id demo_request)"
    by (simp add: isTeamMember_def member_rows_def single_def demo_db_def no_faults_def
        demo_request_def)
  show "\<not> no_faults Insert_message" by (simp add: no_faults_def)
  show "getUserById no_faults demo_db ''A''
      = Inr \<lparr>ui_id = ''A'', ui_email = ''a@x.org'', ui_profile = None\<rparr>"
    by (simp add: getUserById_def no_faults_def demo_db_def single_def)
  show "getTeamMembers no_faults demo_db (req_team_id demo_request)
      = Inr [(\<lparr>m_team_id = ''T'', m_user_id = ''A'', m_role = ''leader'', m_status = ''safe''\<rparr>,
              \<lparr>ui_id = ''A'', ui_email = ''a@x.org'', ui_profile = None\<rparr>),
             (\<lparr>m_team_id = ''T'', m_user_id = ''B'', m_role = ''member'', m_status = ''safe''\<rparr>,
              \<lparr>ui_id = ''B'', ui_email = ''b@x.org'', ui_profile = None\<rparr>)]"
    by (simp add: getTeamMembers_def getUserById_def no_faults_def demo_db_def single_def
        demo_request_def)
  show "\<forall>m\<in>set [(\<lparr>m_team_id = ''T'', m_user_id = ''A'', m_role = ''leader'', m_status = ''safe''\<rparr>,
              \<lparr>ui_id = ''A'', ui_email = ''a@x.org'', ui_profile = None\<rparr>),
             (\<lparr>m_team_id = ''T'', m_user_id = ''B'', m_role = ''member'', m_status = ''safe''\<rparr>,
              \<lparr>ui_id = ''B'', ui_email = ''b@x.org'', ui_profile = None\<rparr>)].
          \<not> no_faults (Insert_notification (m_user_id (fst m)))"
    by (simp add: no_faults_def)
qed

section \<open>The key of an encrypted message in the response and in the broadcast (C1)\<close>

text \<open>
  C1, amended. When an encrypted message is sent (status 201), the response
  carries the generated key in its own field \<open>encryptionKey\<close>, and the only
  event emitted is one \<open>message:new\<close> to the team room, whose payload has the
  fields \<open>message\<close> and \<open>teamId\<close> and no field for the key; the message in
  both is the row that was stored. The key is
  nevertheless part of that payload: the content of the broadcast message is the
  serialized envelope, and parsing it gives an envelope whose \<open>encryptionKey\<close>
  is the key returned to the sender.
\<close>

theorem sendMessage_key_in_broadcast:
  "req_is_encrypted req \<noteq> Some False
   \<and> sendMessage cph sk fl ws new_id (Some uid) req d g = (res, d', g', effs)
   \<and> res_status res = 201
   \<longrightarrow> (\<exists>mws env.
          res_data res = Some \<lparr>sd_message = mws,
                                sd_encryptionKey = Some (hex_encode (fst (randomBytes KEY_LENGTH g)))\<rparr>
          \<and> effs = (if ws then [Emit (To (team_room (req_team_id req)))
                                  (Message_new mws (req_team_id req))] else [])
          \<and> messages d' = messages d @ [mws_message mws]
          \<and> JSON_parse (msg_content (mws_message mws)) = Some env
          \<and> encryptionKey env = Some (hex_encode (fst (randomBytes KEY_LENGTH g))))"
proof (intro impI, elim conjE)
  assume enc: "req_is_encrypted req \<noteq> Some False"
    and run: "sendMessage cph sk fl ws new_id (Some uid) req d g = (res, d', g', effs)"
    and ok: "res_status res = 201"
  have "\<not> (\<not> isTeamMember fl d uid (req_team_id req) \<or> fl Insert_message)"
    using sendMessage_refused [of fl d uid req cph sk ws new_id g] run ok by auto
  then have mem: "isTeamMember fl d uid (req_team_id req)" and ins: "\<not> fl Insert_message"
    by auto
  define row where "row = \<lparr>msg_id = new_id, msg_team_id = req_team_id req,
                     msg_mission_id = (case req_mission_id req of None \<Rightarrow> None
                                       | Some m \<Rightarrow> if m = [] then None else Some m),
                     msg_sender_id = uid,
                     msg_content = JSON_stringify (fst (encryptE2E cph sk (req_content req) g)),
                     msg_is_encrypted = True\<rparr>"
  from sendMessage_outcome(3) [OF enc mem ins run row_def ok] obtain sender where
    data: "res_data res = Some \<lparr>sd_message = \<lparr>mws_message = row, mws_sender = sender\<rparr>,
                                sd_encryptionKey = Some (hex_encode (fst (randomBytes KEY_LENGTH g)))\<rparr>"
    and effs: "effs = (if ws then [Emit (To (team_room (req_team_id req)))
                                (Message_new \<lparr>mws_message = row, mws_sender = sender\<rparr> (req_team_id req))]
                   else [])"
    by blast
  have st: "messages d' = messages d @ [row]"
    by (rule sendMessage_outcome(1) [OF enc mem ins run row_def])
  have p: "JSON_parse (msg_content row) = Some (fst (encryptE2E cph sk (req_content req) g))"
    by (simp add: row_def JSON_parse_E2E)
  have k: "encryptionKey (fst (encryptE2E cph sk (req_content req) g))
      = Some (hex_encode (fst (randomBytes KEY_LENGTH g)))"
    by (simp add: encryptE2E_eq)
  show "\<exists>mws env.
          res_data res = Some \<lparr>sd_message = mws,
                                sd_encryptionKey = Some (hex_encode (fst (randomBytes KEY_LENGTH g)))\<rparr>
          \<and> effs = (if ws then [Emit (To (team_room (req_team_id req)))
                                  (Message_new mws (req_team_id req))] else [])
          \<and> messages d' = messages d @ [mws_message mws]
          \<and> JSON_parse (msg_content (mws_message mws)) = Some env
          \<and> encryptionKey env = Some (hex_encode (fst (randomBytes KEY_LENGTH g)))"
    using data effs st p k
    by (intro exI [of _ "\<lparr>mws_message = row, mws_sender = sender\<rparr>"]
              exI [of _ "fst (encryptE2E cph sk (req_content req) g)"]) simp
qed

text \<open>Witness for C1: \<open>A\<close> sends \<open>status?\<close> to team \<open>T\<close>.\<close>

theorem sendMessage_key_in_broadcast_witness:
  "\<exists>mws env.
      res_data (fst (sendMessage shift_cipher demo_static_key no_faults True ''m1'' (Some ''A'')
                       demo_request demo_db demo_rng))
        = Some \<lparr>sd_message = mws,
                 sd_encryptionKey = Some (hex_encode (fst (randomBytes KEY_LENGTH demo_rng)))\<rparr>
      \<and> snd (snd (snd (sendMessage shift_cipher demo_static_key no_faults True ''m1'' (Some ''A'')
                       demo_request demo_db demo_rng)))
        = [Emit (To (team_room ''T'')) (Message_new mws ''T'')]
      \<and> messages (fst (snd (sendMessage shift_cipher demo_static_key no_faults True ''m1'' (Some ''A'')
                       demo_request demo_db demo_rng)))
        = messages demo_db @ [mws_message mws]
      \<and> JSON_parse (msg_content (mws_message mws)) = Some env
      \<and> encryptionKey env = Some (hex_encode (fst (randomBytes KEY_LENGTH demo_rng)))"
proof -
  let ?S = "sendMessage shift_cipher demo_static_key no_faults True ''m1'' (Some ''A'')
              demo_request demo_db demo_rng"
  have enc: "req_is_encrypted demo_request \<noteq> Some False" by (simp add: demo_request_def)
  have run: "?S = (fst ?S, fst (snd ?S), fst (snd (snd ?S)), snd (snd (snd ?S)))" by simp
  have t: "req_team_id demo_request = ''T''" by (simp add: demo_request_def)
  show ?thesis
    using sendMessage_key_in_broadcast [where req = demo_request and cph = shift_cipher
        and sk = demo_static_key and fl = no_faults and ws = True and new_id = "''m1''"
        and uid = "''A''" and d = demo_db and g = demo_rng and res = "fst ?S"
        and d' = "fst (snd ?S)" and g' = "fst (snd (snd ?S))" and effs = "snd (snd (snd ?S))"]
      enc run demo_send_ok
    by (simp add: t)
qed

text \<open>
  Counterexample to C1 as stated: in the scenario the envelope read from the
  one \<open>message:new\<close> broadcast holds the very key that the response gives the
  sender.
\<close>

theorem sendMessage_broadcast_key_counterexample:
  "map (map_option encryptionKey)
     (broadcast_envelopes (snd (snd (snd (sendMessage shift_cipher demo_static_key no_faults True
        ''m1'' (Some ''A'') demo_request demo_db demo_rng)))))
     = [Some (Some ''000102030405060708090a0b0c0d0e0f101112131415161718191a1b1c1d1e1f'')]
   \<and> map_option sd_encryptionKey (res_data (fst (sendMessage shift_cipher demo_static_key no_faults
        True ''m1'' (Some ''A'') demo_request demo_db demo_rng)))
     = Some (Some ''000102030405060708090a0b0c0d0e0f101112131415161718191a1b1c1d1e1f'')"
proof -
  let ?S = "sendMessage shift_cipher demo_static_key no_faults True ''m1'' (Some ''A'')
              demo_request demo_db demo_rng"
  define row where "row = \<lparr>msg_id = ''m1'', msg_team_id = req_team_id demo_request,
                     msg_mission_id = (case req_mission_id demo_request of None \<Rightarrow> None
                                       | Some m \<Rightarrow> if m = [] then None else Some m),
                     msg_sender_id = ''A'',
                     msg_content = JSON_stringify
                       (fst (encryptE2E shift_cipher demo_static_key (req_content demo_request) demo_rng)),
                     msg_is_encrypted = True\<rparr>"
  have enc: "req_is_encrypted demo_request \<noteq> Some False" by (simp add: demo_request_def)
  have mem: "isTeamMember no_faults demo_db ''A'' (req_team_id demo_request)"
    by (simp add: isTeamMember_def member_rows_def single_def demo_db_def no_faults_def
        demo_request_def)
  have ins: "\<not> no_faults Insert_message" by (simp add: no_faults_def)
  have run: "?S = (fst ?S, fst (snd ?S), fst (snd (snd ?S)), snd (snd (snd ?S)))" by simp
  from sendMessage_outcome(3) [OF enc mem ins run row_def demo_send_ok] obtain sender where
    data: "res_data (fst ?S) = Some \<lparr>sd_message = \<lparr>mws_message = row, mws_sender = sender\<rparr>,
              sd_encryptionKey = Some (hex_encode (fst (randomBytes KEY_LENGTH demo_rng)))\<rparr>"
    and effs: "snd (snd (snd ?S)) = [Emit (To (team_room (req_team_id demo_request)))
                 (Message_new \<lparr>mws_message = row, mws_sender = sender\<rparr> (req_team_id demo_request))]"
    by auto
  have p: "JSON_parse (msg_content row)
      = Some (fst (encryptE2E shift_cipher demo_static_key (req_content demo_request) demo_rng))"
    by (simp add: row_def JSON_parse_E2E)
  have k: "encryptionKey (fst (encryptE2E shift_cipher demo_static_key (req_content demo_request) demo_rng))
      = Some (hex_encode (fst (randomBytes KEY_LENGTH demo_rng)))"
    by (simp add: encryptE2E_eq)
  show ?thesis
    by (simp add: effs data p k demo_key)
qed

section \<open>Removing the last leader (C4)\<close>

text \<open>
  C4, amended. When the caller is a leader of the team and the query for the
  team's leaders is answered: with at most one leader row, the leader's removal
  of themself is rejected with status 400 (\<open>Cannot leave team\<close>) and the store
  is unchanged; with more than one leader row, and the delete carried out by the
  store, the call succeeds with status 200 and no membership row of the caller
  in that team remains.
\<close>

theorem removeTeamMember_last_leader:
  "isTeamLeader fl d leader teamId \<and> select_leaders fl d teamId = Some ls \<longrightarrow>
     (length ls \<le> 1 \<longrightarrow>
        removeTeamMember fl (Some leader) teamId leader d
          = (failure 400 ''Cannot leave team''
               (Some ''You are the only team leader. Please assign another leader before leaving.''), d))
     \<and> (1 < length ls \<and> \<not> fl (Delete_member teamId leader) \<longrightarrow>
          res_status (fst (removeTeamMember fl (Some leader) teamId leader d)) = 200
          \<and> res_success (fst (removeTeamMember fl (Some leader) teamId leader d))
          \<and> team_members (snd (removeTeamMember fl (Some leader) teamId leader d))
              = filter (\<lambda>m. \<not> (m_team_id m = teamId \<and> m_user_id m = leader)) (team_members d)
          \<and> member_rows (snd (removeTeamMember fl (Some leader) teamId leader d)) leader teamId = [])"
  by (auto simp: removeTeamMember_def Let_def member_rows_def filter_empty_conv)

text \<open>Witness for C4: team \<open>T\<close> with the single leader \<open>A\<close>, and with \<open>B\<close> as second leader.\<close>

theorem removeTeamMember_last_leader_witness:
  "removeTeamMember no_faults (Some ''A'') ''T'' ''A'' demo_db
     = (failure 400 ''Cannot leave team''
          (Some ''You are the only team leader. Please assign another leader before leaving.''), demo_db)
   \<and> res_status (fst (removeTeamMember no_faults (Some ''A'') ''T'' ''A'' demo_db_two_leaders)) = 200
   \<and> member_rows (snd (removeTeamMember no_faults (Some ''A'') ''T'' ''A'' demo_db_two_leaders)) ''A'' ''T'' = []"
proof -
  have 1: "isTeamLeader no_faults demo_db ''A'' ''T''"
    by (simp add: isTeamLeader_def member_rows_def single_def demo_db_def no_faults_def)
  have 2: "select_leaders no_faults demo_db ''T''
      = Some [\<lparr>m_team_id = ''T'', m_user_id = ''A'', m_role = ''leader'', m_status = ''safe''\<rparr>]"
    by (simp add: select_leaders_def demo_db_def no_faults_def)
  have 3: "isTeamLeader no_faults demo_db_two_leaders ''A'' ''T''"
    by (simp add: isTeamLeader_def member_rows_def single_def demo_db_two_leaders_def no_faults_def)
  have 4: "select_leaders no_faults demo_db_two_leaders ''T''
      = Some [\<lparr>m_team_id = ''T'', m_user_id = ''A'', m_role = ''leader'', m_status = ''safe''\<rparr>,
              \<lparr>m_team_id = ''T'', m_user_id = ''B'', m_role = ''leader'', m_status = ''safe''\<rparr>]"
    by (simp add: select_leaders_def demo_db_two_leaders_def no_faults_def)
  have 5: "\<not> no_faults (Delete_member ''T'' ''A'')" by (simp add: no_faults_def)
  show ?thesis
    using 1 2 3 4 5
      removeTeamMember_last_leader [where fl = no_faults and d = demo_db and leader = "''A''"
        and teamId = "''T''"
        and ls = "[\<lparr>m_team_id = ''T'', m_user_id = ''A'', m_role = ''leader'', m_status = ''safe''\<rparr>]"]
      removeTeamMember_last_leader [where fl = no_faults and d = demo_db_two_leaders
        and leader = "''A''" and teamId = "''T''"
        and ls = "[\<lparr>m_team_id = ''T'', m_user_id = ''A'', m_role = ''leader'', m_status = ''safe''\<rparr>,
                   \<lparr>m_team_id = ''T'', m_user_id = ''B'', m_role = ''leader'', m_status = ''safe''\<rparr>]"]
    by simp
qed

text \<open>
  Counterexample to C4 as stated: the rejection carries status 400, not the
  status of \<open>ConflictError\<close>.
\<close>

theorem removeTeamMember_status_counterexample:
  "res_status (fst (removeTeamMember no_faults (Some ''A'') ''T'' ''A'' demo_db)) = 400
   \<and> res_status (fst (removeTeamMember no_faults (Some ''A'') ''T'' ''A'' demo_db))
       \<noteq> ConflictError_statusCode"
  by (simp add: removeTeamMember_def isTeamLeader_def select_leaders_def member_rows_def
      single_def demo_db_def no_faults_def failure_def ConflictError_statusCode_def)

section \<open>Compensation in team creation (C5)\<close>

text \<open>
  When the team row has been stored and the insert of the creator's leader
  membership fails, \<open>createTeam\<close> answers 400 and asks the store to delete the
  team row. If the store carries the delete out, no team row and no membership
  row with the new identifier remain, a lookup of the team reports
  \<open>Team not found\<close>, and the other team rows are as before.
\<close>

lemma createTeam_rollback:
  "\<not> fl Insert_team \<and> fl Insert_member \<and> \<not> fl (Delete_team new_id) \<longrightarrow>
     fst (createTeam this fl new_id (Some uid) name description d)
       = failure 400 ''Failed to add team leader'' (Some store_error)
     \<and> (\<forall>t\<in>set (teams (snd (createTeam this fl new_id (Some uid) name description d))).
           team_id t \<noteq> new_id)
     \<and> (\<forall>m\<in>set (team_members (snd (createTeam this fl new_id (Some uid) name description d))).
           m_team_id m \<noteq> new_id)
     \<and> getTeamWithMembers lookup (snd (createTeam this fl new_id (Some uid) name description d)) new_id
         = Inl (Error ''Team not found'')
     \<and> (new_id \<notin> team_id ` set (teams d) \<longrightarrow>
           teams (snd (createTeam this fl new_id (Some uid) name description d)) = teams d)"
proof (intro impI)
  assume a: "\<not> fl Insert_team \<and> fl Insert_member \<and> \<not> fl (Delete_team new_id)"
  let ?team = "\<lparr>team_id = new_id, team_name = name,
                 team_description = (case description of None \<Rightarrow> [] | Some x \<Rightarrow> x)\<rparr>"
  have r: "createTeam this fl new_id (Some uid) name description d
      = (failure 400 ''Failed to add team leader'' (Some store_error),
         delete_team new_id (d\<lparr>teams := teams d @ [?team]\<rparr>))"
    using a by (simp add: createTeam_def Let_def)
  have none: "filter (\<lambda>t. team_id t = new_id)
      (teams (delete_team new_id (d\<lparr>teams := teams d @ [?team]\<rparr>))) = []"
    by (simp add: delete_team_def filter_empty_conv)
  have same: "new_id \<notin> team_id ` set (teams d) \<Longrightarrow>
      filter (\<lambda>t. team_id t \<noteq> new_id) (teams d) = teams d"
    by (rule filter_True) auto
  show "fst (createTeam this fl new_id (Some uid) name description d)
       = failure 400 ''Failed to add team leader'' (Some store_error)
     \<and> (\<forall>t\<in>set (teams (snd (createTeam this fl new_id (Some uid) name description d))).
           team_id t \<noteq> new_id)
     \<and> (\<forall>m\<in>set (team_members (snd (createTeam this fl new_id (Some uid) name description d))).
           m_team_id m \<noteq> new_id)
     \<and> getTeamWithMembers lookup (snd (createTeam this fl new_id (Some uid) name description d)) new_id
         = Inl (Error ''Team not found'')
     \<and> (new_id \<notin> team_id ` set (teams d) \<longrightarrow>
           teams (snd (createTeam this fl new_id (Some uid) name description d)) = teams d)"
    using none same
    by (simp add: r getTeamWithMembers_def) (simp add: delete_team_def)
qed

text \<open>
  C5 at a concrete input. \<open>A\<close> creates the team \<open>Bravo\<close>, to which the store
  gives the identifier \<open>T2\<close>; the store accepts the team row, refuses the
  membership row, and answers the compensating delete with an error. The handler
  does not look at the result of the delete: it answers 400
  (\<open>Failed to add team leader\<close>), the team row \<open>T2\<close> is still in the store,
  without any member, and a later lookup of \<open>T2\<close> finds it.
\<close>

theorem createTeam_failed_rollback_keeps_team:
  "createTeam TeamController_this (\<lambda>r. r = Insert_member \<or> r = Delete_team ''T2'') ''T2''
       (Some ''A'') ''Bravo'' None demo_db
     = (failure 400 ''Failed to add team leader'' (Some store_error),
        demo_db\<lparr>teams := teams demo_db
                   @ [\<lparr>team_id = ''T2'', team_name = ''Bravo'', team_description = []\<rparr>]\<rparr>)
   \<and> getTeamWithMembers no_faults
        (snd (createTeam TeamController_this (\<lambda>r. r = Insert_member \<or> r = Delete_team ''T2'') ''T2''
                (Some ''A'') ''Bravo'' None demo_db)) ''T2''
       = Inr \<lparr>twm_team = \<lparr>team_id = ''T2'', team_name = ''Bravo'', team_description = []\<rparr>,
               twm_members = []\<rparr>"
proof -
  have r: "createTeam TeamController_this (\<lambda>r. r = Insert_member \<or> r = Delete_team ''T2'') ''T2''
       (Some ''A'') ''Bravo'' None demo_db
     = (failure 400 ''Failed to add team leader'' (Some store_error),
        demo_db\<lparr>teams := teams demo_db
                   @ [\<lparr>team_id = ''T2'', team_name = ''Bravo'', team_description = []\<rparr>]\<rparr>)"
    by (simp add: createTeam_def Let_def)
  have l: "getTeamWithMembers no_faults
        (demo_db\<lparr>teams := teams demo_db
                   @ [\<lparr>team_id = ''T2'', team_name = ''Bravo'', team_description = []\<rparr>]\<rparr>) ''T2''
       = Inr \<lparr>twm_team = \<lparr>team_id = ''T2'', team_name = ''Bravo'', team_description = []\<rparr>,
               twm_members = []\<rparr>"
    by (simp add: getTeamWithMembers_def getTeamMembers_def no_faults_def demo_db_def single_def)
  show ?thesis by (simp only: r snd_conv l simp_thms)
qed

section \<open>Persist, then broadcast (C6)\<close>

text \<open>
  C6. In the \<open>status_update\<close> handler, when the membership check fails or the
  write of the status fails (it is answered with an error, or cannot be issued
  at all), the store is unchanged and the only effect is one \<open>error\<close> event on
  the originating socket. Whenever a \<open>user:status_update\<close> broadcast occurs,
  the actor is a member, the write succeeded, the acknowledged write is the
  first effect and the broadcast the second, no further such broadcast follows,
  and the store holds the new status.
\<close>

theorem status_update_persist_then_broadcast:
  "(\<not> isTeamMember fl d (sock_user sock) teamId \<or> admin = None
      \<or> fl (Update_status (sock_user sock) teamId)
     \<longrightarrow> (\<exists>m. status_update admin fl cu sock teamId st d
               = (d, [Emit (Direct (sock_id sock)) (Error_event m)])))
   \<and> ((\<exists>e\<in>set (snd (status_update admin fl cu sock teamId st d)). is_status_broadcast e)
     \<longrightarrow> isTeamMember fl d (sock_user sock) teamId
         \<and> \<not> fl (Update_status (sock_user sock) teamId)
         \<and> (\<exists>rest. snd (status_update admin fl cu sock teamId st d)
                = Status_written (sock_user sock) teamId st
                  # Emit (To (team_room teamId)) (User_status_update (sock_user sock) st teamId)
                  # rest
              \<and> (\<forall>e\<in>set rest. \<not> is_status_broadcast e))
         \<and> team_members (fst (status_update admin fl cu sock teamId st d))
             = team_members (set_status (sock_user sock) teamId st d))"
proof (intro conjI impI)
  assume "\<not> isTeamMember fl d (sock_user sock) teamId \<or> admin = None
      \<or> fl (Update_status (sock_user sock) teamId)"
  then show "\<exists>m. status_update admin fl cu sock teamId st d
               = (d, [Emit (Direct (sock_id sock)) (Error_event m)])"
    by (auto simp: status_update_def Let_def split: option.splits)
next
  let ?uid = "sock_user sock"
  let ?res = "status_update admin fl cu sock teamId st d"
  assume b: "\<exists>e\<in>set (snd ?res). is_status_broadcast e"
  show m: "isTeamMember fl d ?uid teamId"
  proof (rule ccontr)
    assume "\<not> isTeamMember fl d ?uid teamId"
    then have "snd ?res = [Emit (Direct (sock_id sock)) (Error_event ''Not a team member'')]"
      by (simp add: status_update_def Let_def)
    with b show False by simp
  qed
  obtain c where adm: "admin = Some c"
  proof (cases admin)
    case None
    with m have "snd ?res = [Emit (Direct (sock_id sock)) (Error_event ''Failed to update status'')]"
      by (simp add: status_update_def Let_def)
    with b show ?thesis by simp
  next
    case (Some c)
    then show ?thesis by (rule that)
  qed
  show w: "\<not> fl (Update_status ?uid teamId)"
  proof
    assume "fl (Update_status ?uid teamId)"
    with m adm have "snd ?res = [Emit (Direct (sock_id sock)) (Error_event ''Failed to update status'')]"
      by (simp add: status_update_def Let_def)
    with b show False by simp
  qed
  let ?d1 = "set_status ?uid teamId st d"
  obtain d2 es r where ns: "(case getTeamMembers fl ?d1 teamId of
        Inl e \<Rightarrow> (?d1, [], Some e)
      | Inr tms \<Rightarrow> (case getUserById fl ?d1 ?uid of
            Inl e \<Rightarrow> (?d1, [], Some e)
          | Inr ud \<Rightarrow> notify_status fl cu ?uid (display_name ud) st tms ?d1)) = (d2, es, r)"
    by (metis prod_cases3)
  then have q: "team_members d2 = team_members ?d1 \<and> (\<forall>e\<in>set es. \<not> is_status_broadcast e)"
    by (auto split: sum.splits dest: notify_status_quiet)
  have shape: "?res = (d2, Status_written ?uid teamId st
                  # Emit (To (team_room teamId)) (User_status_update ?uid st teamId)
                  # es @ (case r of None \<Rightarrow> []
                         | Some e \<Rightarrow> [Emit (Direct (sock_id sock)) (Error_event ''Failed to update status'')]))"
    using m adm w ns
    by (auto simp: status_update_def Let_def split: sum.splits option.splits)
  from shape q show "\<exists>rest. snd ?res
                = Status_written ?uid teamId st
                  # Emit (To (team_room teamId)) (User_status_update ?uid st teamId) # rest
              \<and> (\<forall>e\<in>set rest. \<not> is_status_broadcast e)"
    by (auto split: option.splits)
  from shape q show "team_members (fst ?res) = team_members ?d1" by simp
qed

text \<open>Witness for C6: a failing and a succeeding write of \<open>need_backup\<close> by \<open>A\<close>.\<close>

theorem status_update_persist_then_broadcast_witness:
  "status_update (Some SupabaseClient) (\<lambda>r. r = Update_status ''A'' ''T'') Map.empty demo_socket
       ''T'' ''need_backup'' demo_db
     = (demo_db, [Emit (Direct ''s1'') (Error_event ''Failed to update status'')])
   \<and> (\<exists>rest. snd (status_update (Some SupabaseClient) no_faults Map.empty demo_socket
                     ''T'' ''need_backup'' demo_db)
         = Status_written ''A'' ''T'' ''need_backup''
           # Emit (To (team_room ''T'')) (User_status_update ''A'' ''need_backup'' ''T'') # rest)"
proof -
  have f: "status_update (Some SupabaseClient) (\<lambda>r. r = Update_status ''A'' ''T'') Map.empty
             demo_socket ''T'' ''need_backup'' demo_db
           = (demo_db, [Emit (Direct ''s1'') (Error_event ''Failed to update status'')])"
    by (simp add: status_update_def isTeamMember_def member_rows_def single_def demo_db_def
        demo_socket_def Let_def)
  have b: "\<exists>e\<in>set (snd (status_update (Some SupabaseClient) no_faults Map.empty demo_socket
                     ''T'' ''need_backup'' demo_db)). is_status_broadcast e"
    by (simp add: status_update_def isTeamMember_def member_rows_def single_def demo_db_def
        demo_socket_def no_faults_def Let_def split: sum.splits prod.splits option.splits)
  show ?thesis
    using f b
      status_update_persist_then_broadcast [where fl = no_faults and d = demo_db
        and sock = demo_socket and teamId = "''T''" and admin = "Some SupabaseClient"
        and cu = Map.empty and st = "''need_backup''"]
      status_update_persist_then_broadcast [where fl = "\<lambda>r. r = Update_status ''A'' ''T''"
        and d = demo_db and sock = demo_socket and teamId = "''T''"
        and admin = "Some SupabaseClient" and cu = Map.empty and st = "''need_backup''"]
    by (auto simp: demo_socket_def)
qed

section \<open>Disconnect (C7)\<close>

text \<open>
  C7 at a concrete input. \<open>A\<close> is connected and a member of team \<open>T\<close> with
  status \<open>safe\<close>; the store answers every request. On disconnect the entry of
  \<open>A\<close> leaves the registry, and nothing else happens: the store is unchanged
  (both memberships still \<open>safe\<close>) and no event is emitted, because the first
  iteration of the loop reads the undefined \<open>DatabaseService.supabaseAdmin\<close>.
\<close>

theorem disconnect_marks_nobody_offline:
  "on_disconnect DatabaseService_supabaseAdmin no_faults demo_socket [''A'' \<mapsto> ''s1''] demo_db
     = (Map.empty, demo_db, [])
   \<and> map m_status (team_members demo_db) = [''safe'', ''safe'']
   \<and> getUserTeams no_faults demo_db ''A''
       = Inr [\<lparr>m_team_id = ''T'', m_user_id = ''A'', m_role = ''leader'', m_status = ''safe''\<rparr>]"
  by (simp add: on_disconnect_def updateUserOfflineStatus_def getUserTeams_def
      DatabaseService_supabaseAdmin_def offline_loop_undefined no_faults_def demo_socket_def
      demo_db_def)

section \<open>Joining a team room (C8)\<close>

text \<open>
  C8. Without a membership row the membership check is false, whatever the store
  answers. For a user who is not a member, \<open>join_team\<close> leaves the session as
  it is (same rooms, still connected) and emits one \<open>error\<close> event to that
  socket only. A room that a session gains, by \<open>join_team\<close> or by the joins made
  at connect time, is the room of a team in which the user has a membership row
  at that moment.
\<close>

theorem joinTeam_membership_gate:
  "(member_rows d userId teamId = [] \<longrightarrow> \<not> isTeamMember fl d userId teamId)
   \<and> (\<not> isTeamMember fl d userId teamId \<longrightarrow>
        joinTeam fl d sock teamId userId
          = (sock, [Emit (Direct (sock_id sock)) (Error_event ''Not a team member'')]))
   \<and> (r \<in> rooms (fst (joinTeam fl d sock teamId userId)) \<and> r \<notin> rooms sock \<longrightarrow>
        r = team_room teamId
        \<and> (\<exists>m\<in>set (team_members d). m_user_id m = userId \<and> m_team_id m = teamId))
   \<and> (r \<in> rooms (joinUserTeams fl d sock userId) \<and> r \<notin> rooms sock \<longrightarrow>
        (\<exists>m\<in>set (team_members d). m_user_id m = userId \<and> r = team_room (m_team_id m)))"
proof (intro conjI impI)
  assume "member_rows d userId teamId = []"
  then show "\<not> isTeamMember fl d userId teamId" by (simp add: isTeamMember_def)
next
  assume "\<not> isTeamMember fl d userId teamId"
  then show "joinTeam fl d sock teamId userId
      = (sock, [Emit (Direct (sock_id sock)) (Error_event ''Not a team member'')])"
    by (simp add: joinTeam_def)
next
  assume a: "r \<in> rooms (fst (joinTeam fl d sock teamId userId)) \<and> r \<notin> rooms sock"
  then have m: "isTeamMember fl d userId teamId"
    by (auto simp: joinTeam_def split: if_splits)
  with a show "r = team_room teamId" by (auto simp: joinTeam_def)
  from m show "\<exists>m\<in>set (team_members d). m_user_id m = userId \<and> m_team_id m = teamId"
    by (rule isTeamMember_row)
next
  assume "r \<in> rooms (joinUserTeams fl d sock userId) \<and> r \<notin> rooms sock"
  then show "\<exists>m\<in>set (team_members d). m_user_id m = userId \<and> r = team_room (m_team_id m)"
    by (auto simp: joinUserTeams_def getUserTeams_def split: if_splits)
qed

text \<open>Witness for C8: the stranger \<open>Z\<close> and the member \<open>A\<close> ask to join team \<open>T\<close>.\<close>

theorem joinTeam_membership_gate_witness:
  "joinTeam no_faults demo_db demo_socket ''T'' ''Z''
     = (demo_socket, [Emit (Direct ''s1'') (Error_event ''Not a team member'')])
   \<and> team_room ''T'' \<in> rooms (fst (joinTeam no_faults demo_db demo_socket ''T'' ''A''))
   \<and> team_room ''T'' \<in> rooms (joinUserTeams no_faults demo_db demo_socket ''A'')
   \<and> team_room ''T'' \<notin> rooms demo_socket
   \<and> (\<exists>m\<in>set (team_members demo_db). m_user_id m = ''A'' \<and> m_team_id m = ''T'')"
proof -
  have h: "member_rows demo_db ''Z'' ''T'' = []"
    by (simp add: member_rows_def demo_db_def)
  have j: "team_room ''T'' \<in> rooms (fst (joinTeam no_faults demo_db demo_socket ''T'' ''A''))
      \<and> team_room ''T'' \<notin> rooms demo_socket"
    by (simp add: joinTeam_def isTeamMember_def member_rows_def demo_db_def no_faults_def
        single_def demo_socket_def)
  have u: "team_room ''T'' \<in> rooms (joinUserTeams no_faults demo_db demo_socket ''A'')"
    by (simp add: joinUserTeams_def getUserTeams_def demo_db_def no_faults_def demo_socket_def)
  show ?thesis
    using h j u
      joinTeam_membership_gate [where d = demo_db and userId = "''Z''" and teamId = "''T''"
        and fl = no_faults and sock = demo_socket and r = "team_room ''T''"]
      joinTeam_membership_gate [where d = demo_db and userId = "''A''" and teamId = "''T''"
        and fl = no_faults and sock = demo_socket and r = "team_room ''T''"]
    by (simp add: demo_socket_def)
qed

section \<open>What is stored for an encrypted message (C9)\<close>

text \<open>
  C9, amended. For an encrypted message of a team member whose row the store
  accepts: exactly one row is added, flagged encrypted, of that sender and team,
  whose content is the serialized envelope made of the ciphertext of the UTF-8
  bytes of the submitted text under the key drawn for this message, that key,
  the initialization vector drawn after it, and the tag; with a cipher that
  preserves the length of the plaintext the stored content differs from the
  submitted text. The notifications added are of type \<open>message\<close> and go, in the
  order of the membership rows, to an initial segment of the members of the team
  other than the sender; when the request succeeds (status 201) they go to every
  member other than the sender.
\<close>

theorem sendMessage_encrypted_row_and_notifications:
  "req_is_encrypted req \<noteq> Some False \<and> isTeamMember fl d uid (req_team_id req)
   \<and> \<not> fl Insert_message
   \<and> sendMessage cph sk fl ws new_id (Some uid) req d g = (res, d', g', effs)
   \<longrightarrow> (\<exists>row. messages d' = messages d @ [row]
          \<and> msg_is_encrypted row \<and> msg_sender_id row = uid \<and> msg_team_id row = req_team_id req
          \<and> msg_content row
              = JSON_stringify
                  \<lparr>content = Some (hex_encode (fst (seal cph (fst (randomBytes KEY_LENGTH g)) AAD
                               (utf8_encode (req_content req))))),
                 encryptionKey = Some (hex_encode (fst (randomBytes KEY_LENGTH g))),
                 iv = Some (hex_encode (fst (randomBytes IV_LENGTH (\<lambda>i. g (i + KEY_LENGTH))))),
                 tag = Some (hex_encode (snd (seal cph (fst (randomBytes KEY_LENGTH g)) AAD
                               (utf8_encode (req_content req)))))\<rparr>
          \<and> (length_preserving cph \<longrightarrow> msg_content row \<noteq> req_content req))
       \<and> (\<exists>new k. notifications d' = notifications d @ new
             \<and> map n_user_id new
                 = take k (filter (\<lambda>u. u \<noteq> uid)
                     (map m_user_id (filter (\<lambda>m. m_team_id m = req_team_id req) (team_members d))))
             \<and> (\<forall>n\<in>set new. n_type n = ''message''))
       \<and> (res_status res = 201 \<longrightarrow>
            (\<exists>new. notifications d' = notifications d @ new
               \<and> map n_user_id new
                   = filter (\<lambda>u. u \<noteq> uid)
                       (map m_user_id (filter (\<lambda>m. m_team_id m = req_team_id req) (team_members d)))
               \<and> (\<forall>n\<in>set new. n_type n = ''message'')))"
proof (intro impI, elim conjE)
  assume enc: "req_is_encrypted req \<noteq> Some False"
    and mem: "isTeamMember fl d uid (req_team_id req)"
    and ins: "\<not> fl Insert_message"
    and run: "sendMessage cph sk fl ws new_id (Some uid) req d g = (res, d', g', effs)"
  define row where "row = \<lparr>msg_id = new_id, msg_team_id = req_team_id req,
                     msg_mission_id = (case req_mission_id req of None \<Rightarrow> None
                                       | Some m \<Rightarrow> if m = [] then None else Some m),
                     msg_sender_id = uid,
                     msg_content = JSON_stringify (fst (encryptE2E cph sk (req_content req) g)),
                     msg_is_encrypted = True\<rparr>"
  note out = sendMessage_outcome [OF enc mem ins run row_def]
  have env: "fst (encryptE2E cph sk (req_content req) g)
      = \<lparr>content = Some (hex_encode (fst (seal cph (fst (randomBytes KEY_LENGTH g)) AAD
                                 (utf8_encode (req_content req))))),
                   encryptionKey = Some (hex_encode (fst (randomBytes KEY_LENGTH g))),
                   iv = Some (hex_encode (fst (randomBytes IV_LENGTH (\<lambda>i. g (i + KEY_LENGTH))))),
                   tag = Some (hex_encode (snd (seal cph (fst (randomBytes KEY_LENGTH g)) AAD
                                 (utf8_encode (req_content req)))))\<rparr>"
    by (simp add: encryptE2E_eq)
  have ne: "length_preserving cph \<longrightarrow> msg_content row \<noteq> req_content req"
  proof
    assume lp: "length_preserving cph"
    have "length (req_content req) < length (msg_content row)"
      using stored_text_longer [OF lp] by (simp add: row_def)
    then show "msg_content row \<noteq> req_content req" by auto
  qed
  have stored: "\<exists>row. messages d' = messages d @ [row]
          \<and> msg_is_encrypted row \<and> msg_sender_id row = uid \<and> msg_team_id row = req_team_id req
          \<and> msg_content row
              = JSON_stringify
                  \<lparr>content = Some (hex_encode (fst (seal cph (fst (randomBytes KEY_LENGTH g)) AAD
                               (utf8_encode (req_content req))))),
                 encryptionKey = Some (hex_encode (fst (randomBytes KEY_LENGTH g))),
                 iv = Some (hex_encode (fst (randomBytes IV_LENGTH (\<lambda>i. g (i + KEY_LENGTH))))),
                 tag = Some (hex_encode (snd (seal cph (fst (randomBytes KEY_LENGTH g)) AAD
                               (utf8_encode (req_content req)))))\<rparr>
          \<and> (length_preserving cph \<longrightarrow> msg_content row \<noteq> req_content req)"
    using out(1) ne env by (intro exI [of _ row]) (simp add: row_def)
  from out(2) obtain k where
    pre: "map n_user_id (drop (length (notifications d)) (notifications d'))
           = take k (filter (\<lambda>u. u \<noteq> uid)
               (map m_user_id (filter (\<lambda>m. m_team_id m = req_team_id req) (team_members d))))"
    and old: "take (length (notifications d)) (notifications d') = notifications d"
    and ty: "\<forall>n\<in>set (drop (length (notifications d)) (notifications d')). n_type n = ''message''"
    by blast
  have "notifications d' = notifications d @ drop (length (notifications d)) (notifications d')"
    using old append_take_drop_id [of "length (notifications d)" "notifications d'"] by simp
  with pre ty
  have some: "\<exists>new k. notifications d' = notifications d @ new
             \<and> map n_user_id new
                 = take k (filter (\<lambda>u. u \<noteq> uid)
                     (map m_user_id (filter (\<lambda>m. m_team_id m = req_team_id req) (team_members d))))
             \<and> (\<forall>n\<in>set new. n_type n = ''message'')"
    by blast
  have notified: "\<exists>new. notifications d' = notifications d @ new
               \<and> map n_user_id new
                   = filter (\<lambda>u. u \<noteq> uid)
                       (map m_user_id (filter (\<lambda>m. m_team_id m = req_team_id req) (team_members d)))
               \<and> (\<forall>n\<in>set new. n_type n = ''message'')"
    if ok: "res_status res = 201"
  proof -
    from out(3) [OF ok] obtain sender tms where
      t: "getTeamMembers fl d (req_team_id req) = Inr tms"
      and n: "notifications d' = notifications d @
             map (message_notification sender) (filter (\<lambda>member. m_user_id (fst member) \<noteq> uid) tms)"
      by blast
    let ?new = "map (message_notification sender) (filter (\<lambda>member. m_user_id (fst member) \<noteq> uid) tms)"
    have "map n_user_id ?new = filter (\<lambda>u. u \<noteq> uid) (map m_user_id (map fst tms))"
      by (simp add: message_notification_def filter_map o_def)
    also have "map fst tms = filter (\<lambda>m. m_team_id m = req_team_id req) (team_members d)"
      using t by (rule getTeamMembers_rows)
    finally have users: "map n_user_id ?new
        = filter (\<lambda>u. u \<noteq> uid)
            (map m_user_id (filter (\<lambda>m. m_team_id m = req_team_id req) (team_members d)))" .
    have "\<forall>n\<in>set ?new. n_type n = ''message''"
      by (simp add: message_notification_def)
    with n users show ?thesis by blast
  qed
  from stored some notified
  show "(\<exists>row. messages d' = messages d @ [row]
          \<and> msg_is_encrypted row \<and> msg_sender_id row = uid \<and> msg_team_id row = req_team_id req
          \<and> msg_content row
              = JSON_stringify
                  \<lparr>content = Some (hex_encode (fst (seal cph (fst (randomBytes KEY_LENGTH g)) AAD
                               (utf8_encode (req_content req))))),
                 encryptionKey = Some (hex_encode (fst (randomBytes KEY_LENGTH g))),
                 iv = Some (hex_encode (fst (randomBytes IV_LENGTH (\<lambda>i. g (i + KEY_LENGTH))))),
                 tag = Some (hex_encode (snd (seal cph (fst (randomBytes KEY_LENGTH g)) AAD
                               (utf8_encode (req_content req)))))\<rparr>
          \<and> (length_preserving cph \<longrightarrow> msg_content row \<noteq> req_content req))
       \<and> (\<exists>new k. notifications d' = notifications d @ new
             \<and> map n_user_id new
                 = take k (filter (\<lambda>u. u \<noteq> uid)
                     (map m_user_id (filter (\<lambda>m. m_team_id m = req_team_id req) (team_members d))))
             \<and> (\<forall>n\<in>set new. n_type n = ''message''))
       \<and> (res_status res = 201 \<longrightarrow>
            (\<exists>new. notifications d' = notifications d @ new
               \<and> map n_user_id new
                   = filter (\<lambda>u. u \<noteq> uid)
                       (map m_user_id (filter (\<lambda>m. m_team_id m = req_team_id req) (team_members d)))
               \<and> (\<forall>n\<in>set new. n_type n = ''message'')))"
    by blast
qed

text \<open>Witness for C9: \<open>A\<close> sends \<open>status?\<close>; \<open>B\<close> is notified.\<close>

theorem sendMessage_encrypted_row_and_notifications_witness:
  "(\<exists>row. messages (fst (snd (sendMessage shift_cipher demo_static_key no_faults True ''m1''
                (Some ''A'') demo_request demo_db demo_rng))) = messages demo_db @ [row]
          \<and> msg_is_encrypted row \<and> msg_content row \<noteq> js_text ''status?'')
   \<and> (\<exists>new. notifications (fst (snd (sendMessage shift_cipher demo_static_key no_faults True ''m1''
                (Some ''A'') demo_request demo_db demo_rng))) = notifications demo_db @ new
          \<and> map n_user_id new = [''B''] \<and> (\<forall>n\<in>set new. n_type n = ''message''))"
proof -
  let ?S = "sendMessage shift_cipher demo_static_key no_faults True ''m1'' (Some ''A'')
              demo_request demo_db demo_rng"
  have enc: "req_is_encrypted demo_request \<noteq> Some False" by (simp add: demo_request_def)
  have mem: "isTeamMember no_faults demo_db ''A'' (req_team_id demo_request)"
    by (simp add: isTeamMember_def member_rows_def single_def demo_db_def no_faults_def
        demo_request_def)
  have ins: "\<not> no_faults Insert_message" by (simp add: no_faults_def)
  have run: "?S = (fst ?S, fst (snd ?S), fst (snd (snd ?S)), snd (snd (snd ?S)))" by simp
  have c: "req_content demo_request = js_text ''status?''" by (simp add: demo_request_def)
  have users: "filter (\<lambda>u. u \<noteq> ''A'')
      (map m_user_id (filter (\<lambda>m. m_team_id m = req_team_id demo_request) (team_members demo_db)))
      = [''B'']"
    by (simp add: demo_db_def demo_request_def)
  show ?thesis
    using sendMessage_encrypted_row_and_notifications [where req = demo_request
        and cph = shift_cipher and sk = demo_static_key and fl = no_faults and ws = True
        and new_id = "''m1''" and uid = "''A''" and d = demo_db and g = demo_rng
        and res = "fst ?S" and d' = "fst (snd ?S)" and g' = "fst (snd (snd ?S))"
        and effs = "snd (snd (snd ?S))"]
      enc mem ins run demo_send_ok shift_cipher_length
    unfolding c users
    by blast
qed

text \<open>
  Counterexample to C9 as stated: \<open>A\<close> sends \<open>status?\<close> to team \<open>T\<close> and
  the store refuses the notification for \<open>B\<close>. The request is answered 500
  and nothing is broadcast; the encrypted row has been stored, and \<open>B\<close>, a
  member other than the sender, has no notification.
\<close>

theorem sendMessage_notification_counterexample:
  "res_status (fst (sendMessage shift_cipher demo_static_key (\<lambda>r. r = Insert_notification ''B'')
       True ''m1'' (Some ''A'') demo_request demo_db demo_rng)) = 500
   \<and> map msg_is_encrypted (messages (fst (snd (sendMessage shift_cipher demo_static_key
       (\<lambda>r. r = Insert_notification ''B'') True ''m1'' (Some ''A'') demo_request demo_db demo_rng))))
       = [True]
   \<and> notifications (fst (snd (sendMessage shift_cipher demo_static_key
       (\<lambda>r. r = Insert_notification ''B'') True ''m1'' (Some ''A'') demo_request demo_db demo_rng)))
       = []
   \<and> snd (snd (snd (sendMessage shift_cipher demo_static_key
       (\<lambda>r. r = Insert_notification ''B'') True ''m1'' (Some ''A'') demo_request demo_db demo_rng)))
       = []
   \<and> filter (\<lambda>u. u \<noteq> ''A'')
       (map m_user_id (filter (\<lambda>m. m_team_id m = req_team_id demo_request) (team_members demo_db)))
       = [''B'']"
proof -
  let ?fl = "\<lambda>r. r = Insert_notification ''B''"
  let ?S = "sendMessage shift_cipher demo_static_key ?fl True ''m1'' (Some ''A'')
              demo_request demo_db demo_rng"
  define row where "row = \<lparr>msg_id = ''m1'', msg_team_id = req_team_id demo_request,
                     msg_mission_id = (case req_mission_id demo_request of None \<Rightarrow> None
                                       | Some m \<Rightarrow> if m = [] then None else Some m),
                     msg_sender_id = ''A'',
                     msg_content = JSON_stringify
                       (fst (encryptE2E shift_cipher demo_static_key (req_content demo_request) demo_rng)),
                     msg_is_encrypted = True\<rparr>"
  let ?d1 = "demo_db\<lparr>messages := messages demo_db @ [row]\<rparr>"
  let ?ns = "\<lambda>sender tms. map (message_notification sender)
                 (filter (\<lambda>member. m_user_id (fst member) \<noteq> ''A'') tms)"
  have enc: "req_is_encrypted demo_request \<noteq> Some False" by (simp add: demo_request_def)
  have mem: "isTeamMember ?fl demo_db ''A'' (req_team_id demo_request)"
    by (simp add: isTeamMember_def member_rows_def single_def demo_db_def demo_request_def)
  have ins: "\<not> ?fl Insert_message" by simp
  have u: "getUserById ?fl demo_db ''A''
      = Inr \<lparr>ui_id = ''A'', ui_email = ''a@x.org'', ui_profile = None\<rparr>"
    by (simp add: getUserById_def demo_db_def single_def)
  have t: "getTeamMembers ?fl demo_db (req_team_id demo_request)
      = Inr [(\<lparr>m_team_id = ''T'', m_user_id = ''A'', m_role = ''leader'', m_status = ''safe''\<rparr>,
              \<lparr>ui_id = ''A'', ui_email = ''a@x.org'', ui_profile = None\<rparr>),
             (\<lparr>m_team_id = ''T'', m_user_id = ''B'', m_role = ''member'', m_status = ''safe''\<rparr>,
              \<lparr>ui_id = ''B'', ui_email = ''b@x.org'', ui_profile = None\<rparr>)]"
    by (simp add: getTeamMembers_def getUserById_def demo_db_def single_def demo_request_def)
  have eq: "?S = (failure 500 ''Failed to send message'' (Some ''Failed to create notification''),
                  ?d1, snd (encryptE2E shift_cipher demo_static_key (req_content demo_request) demo_rng), [])"
    by (simp add: sendMessage_encrypted_eq [OF enc mem ins _ row_def,
          where ?d2.0 = "\<lambda>sender tms. fst (createNotifications ?fl (?ns sender tms) ?d1)"
            and r = "\<lambda>sender tms. snd (createNotifications ?fl (?ns sender tms) ?d1)"
            and ?g1.0 = "snd (encryptE2E shift_cipher demo_static_key (req_content demo_request) demo_rng)"]
        u t createNotification_def message_notification_def)
  have users: "filter (\<lambda>u. u \<noteq> ''A'')
      (map m_user_id (filter (\<lambda>m. m_team_id m = req_team_id demo_request) (team_members demo_db)))
      = [''B'']"
    by (simp add: demo_db_def demo_request_def)
  have base: "messages demo_db = [] \<and> notifications demo_db = []" by (simp add: demo_db_def)
  show ?thesis
    unfolding eq users using base by (simp add: failure_def row_def)
qed

section \<open>The stored envelope carries its own key (C10)\<close>

text \<open>
  C10. The \<open>encryptionKey\<close> field of the envelope that \<open>encrypt\<close> returns is
  the text of the very key the ciphertext was made with. The row stored for an
  encrypted message holds the serialized envelope: parsing the stored content
  gives the envelope with that key, and \<open>decrypt\<close> on it, with nothing else,
  succeeds (for a correct cipher): it returns the submitted text as it is after
  encoding to UTF-8 and decoding again, which is the submitted text itself when
  that is well-formed UTF-16.
\<close>

theorem stored_envelope_carries_its_key:
  "(\<exists>k. encryptionKey (fst (encrypt cph sk p key g)) = Some k
       \<and> content (fst (encrypt cph sk p key g))
           = Some (hex_encode (fst (seal cph (hex_decode k) AAD (utf8_encode p)))))
   \<and> (req_is_encrypted req \<noteq> Some False \<and> isTeamMember fl d uid (req_team_id req)
      \<and> \<not> fl Insert_message
      \<and> sendMessage cph sk fl ws new_id (Some uid) req d g0 = (res, d', g', effs)
      \<longrightarrow> (\<exists>row env k.
             messages d' = messages d @ [row]
             \<and> JSON_parse (msg_content row) = Some env
             \<and> encryptionKey env = Some k
             \<and> content env
                 = Some (hex_encode (fst (seal cph (hex_decode k) AAD (utf8_encode (req_content req)))))
             \<and> (cipher_correct cph \<longrightarrow>
                  decrypt cph env = Inr (utf8_decode (utf8_encode (req_content req)))
                  \<and> (well_formed (req_content req) \<longrightarrow> decrypt cph env = Inr (req_content req)))))"
proof (intro conjI impI, goal_cases)
  case 1
  show ?case
    by (simp add: encrypt_def case_prod_beta Let_def hex_decode_encode split: option.splits)
next
  case 2
  then have enc: "req_is_encrypted req \<noteq> Some False"
    and mem: "isTeamMember fl d uid (req_team_id req)"
    and ins: "\<not> fl Insert_message"
    and run: "sendMessage cph sk fl ws new_id (Some uid) req d g0 = (res, d', g', effs)"
    by auto
  define row where "row = \<lparr>msg_id = new_id, msg_team_id = req_team_id req,
                     msg_mission_id = (case req_mission_id req of None \<Rightarrow> None
                                       | Some m \<Rightarrow> if m = [] then None else Some m),
                     msg_sender_id = uid,
                     msg_content = JSON_stringify (fst (encryptE2E cph sk (req_content req) g0)),
                     msg_is_encrypted = True\<rparr>"
  let ?env = "fst (encryptE2E cph sk (req_content req) g0)"
  let ?k = "hex_encode (fst (randomBytes KEY_LENGTH g0))"
  have m: "messages d' = messages d @ [row]"
    by (rule sendMessage_outcome(1) [OF enc mem ins run row_def])
  have p: "JSON_parse (msg_content row) = Some ?env"
    by (simp add: row_def JSON_parse_E2E)
  have k: "encryptionKey ?env = Some ?k"
    and c: "content ?env
        = Some (hex_encode (fst (seal cph (hex_decode ?k) AAD (utf8_encode (req_content req)))))"
    by (simp_all add: encryptE2E_eq hex_decode_encode)
  have r: "cipher_correct cph \<longrightarrow>
      decrypt cph ?env = Inr (utf8_decode (utf8_encode (req_content req)))
      \<and> (well_formed (req_content req) \<longrightarrow> decrypt cph ?env = Inr (req_content req))"
    by (simp add: decrypt_encryptE2E utf8_roundtrip)
  from m p k c r show ?case by blast
qed

text \<open>Witness for C10: the row stored for \<open>status?\<close> decrypts by itself.\<close>

theorem stored_envelope_carries_its_key_witness:
  "\<exists>row env.
      messages (fst (snd (sendMessage shift_cipher demo_static_key no_faults True ''m1''
                (Some ''A'') demo_request demo_db demo_rng))) = messages demo_db @ [row]
      \<and> JSON_parse (msg_content row) = Some env
      \<and> decrypt shift_cipher env = Inr (js_text ''status?'')"
proof -
  let ?S = "sendMessage shift_cipher demo_static_key no_faults True ''m1'' (Some ''A'')
              demo_request demo_db demo_rng"
  have enc: "req_is_encrypted demo_request \<noteq> Some False" by (simp add: demo_request_def)
  have mem: "isTeamMember no_faults demo_db ''A'' (req_team_id demo_request)"
    by (simp add: isTeamMember_def member_rows_def single_def demo_db_def no_faults_def
        demo_request_def)
  have ins: "\<not> no_faults Insert_message" by (simp add: no_faults_def)
  have run: "?S = (fst ?S, fst (snd ?S), fst (snd (snd ?S)), snd (snd (snd ?S)))" by simp
  have c: "req_content demo_request = js_text ''status?''" by (simp add: demo_request_def)
  show ?thesis
    using stored_envelope_carries_its_key [where req = demo_request
        and cph = shift_cipher and sk = demo_static_key and fl = no_faults and ws = True
        and new_id = "''m1''" and uid = "''A''" and d = demo_db and ?g0.0 = demo_rng
        and res = "fst ?S" and d' = "fst (snd ?S)" and g' = "fst (snd (snd ?S))"
        and effs = "snd (snd (snd ?S))"]
      enc mem ins run shift_cipher_correct well_formed_status
    unfolding c
    by blast
qed

end
